theory Spec2Isabelle
  imports Complex_Main "HOL-Library.Char_ord" "HOL-Library.List_Lexorder"
    "HOL-Library.Product_Lexorder"
begin

section \<open>The gift-registry worker: data model\<close>

text \<open>
  The worker is one TypeScript module. Its numbers are JavaScript numbers, that is binary
  doubles; the amounts of the ledger are modelled by reals, and the values that are not
  finite stand as constructors of their own. On amounts \<open>+\<close>, \<open>-\<close>, \<open>min\<close> and \<open>max\<close> stand
  where the worker and its SQL add, subtract and compare doubles; here they are exact, and
  the rounding of a double sum or difference is not modelled. The statements about amounts
  are therefore written with the sums and differences that the code computes, in the order
  in which it computes them, and the amounts of the sample stores are small whole numbers,
  on which the operations of the worker are exact as well. Strings are lists of 8-bit
  characters, read as code units below 256. Identifiers are integers.
\<close>

datatype jsnum = Num real | NaN | Infinity | NegInfinity

text \<open>\<open>!n\<close> for a number: zero and NaN are falsy.\<close>

fun falsy_num :: "jsnum \<Rightarrow> bool" where
  "falsy_num (Num r) = (r = 0)"
| "falsy_num NaN = True"
| "falsy_num Infinity = False"
| "falsy_num NegInfinity = False"

fun isFinite :: "jsnum \<Rightarrow> bool" where
  "isFinite (Num r) = True"
| "isFinite n = False"

text \<open>\<open>n <= 0\<close> and \<open>n > 0\<close>: every comparison with NaN is false.\<close>

fun le_zero :: "jsnum \<Rightarrow> bool" where
  "le_zero (Num r) = (r \<le> 0)"
| "le_zero NegInfinity = True"
| "le_zero n = False"

fun gt_zero :: "jsnum \<Rightarrow> bool" where
  "gt_zero (Num r) = (0 < r)"
| "gt_zero Infinity = True"
| "gt_zero n = False"

text \<open>\<open>Number(v)\<close> of an optional numeric field: \<open>undefined\<close> becomes NaN.\<close>

fun Number :: "jsnum option \<Rightarrow> jsnum" where
  "Number None = NaN"
| "Number (Some n) = n"

record item =
  i_id :: int
  title :: string
  description :: string
  image_url :: string
  product_url :: string
  price_total :: real
  price_raised :: real
  is_funded :: int
  created_at :: string

record contribution =
  c_id :: int
  item_id :: int
  contributor_name :: string
  contributor_ip :: "string option"
  amount :: real
  message :: string
  c_created_at :: string
  item_title :: "string option"

text \<open>A row of \<open>chat_rate_limit\<close>, whose primary key is \<open>(ip, day)\<close>.\<close>

record rate_row =
  rl_ip :: string
  rl_day :: string
  rl_count :: nat

text \<open>
  The D1 database: the three tables as lists of rows, and the AUTOINCREMENT sequences of
  the two tables with a generated key.
\<close>

record db =
  items :: "item list"
  items_seq :: int
  contributions :: "contribution list"
  contributions_seq :: int
  chat_rate_limit :: "rate_row list"

record env =
  ADMIN_PASSWORD :: string
  GUEST_PASSWORD :: string

text \<open>
  A request: the headers the worker reads, the clock at the time it is handled
  (\<open>new Date().toISOString()\<close> and SQLite's \<open>datetime('now')\<close>) and the body.
  \<open>json = None\<close> is a body for which \<open>request.json()\<close> rejects.
\<close>

record 'b request =
  x_admin_password :: "string option"
  x_guest_password :: "string option"
  cf_connecting_ip :: "string option"
  x_forwarded_for :: "string option"
  now_iso :: string
  now_sql :: string
  json :: "'b option"

text \<open>The bodies, with the fields of the casts in the handlers; an absent field is None.\<close>

record item_body =
  b_title :: "string option"
  b_description :: "string option"
  b_image_url :: "string option"
  b_product_url :: "string option"
  b_price_total :: "real option"
  b_is_funded :: "int option"

text \<open>
  \<open>b_item_id\<close> is the value of \<open>parseInt(String(body.item_id), 10)\<close>: the integer
  itself for an integer field, None where the result is NaN.
\<close>

record contribution_body =
  b_item_id :: "int option"
  b_contributor_name :: "string option"
  b_amount :: "jsnum option"
  b_message :: "string option"

record chat_body =
  b_chat_message :: "string option"
  b_history :: "(string \<times> string) list option"

record auth_body =
  b_password :: "string option"

text \<open>The object the extractor is asked for, as the cast after \<open>JSON.parse\<close> types it.\<close>

record extracted =
  x_action :: "string option"
  x_item_id :: "jsnum option"
  x_name :: "string option"
  x_amount :: "jsnum option"
  x_message :: "string option"
  x_contribution_id :: "jsnum option"
  x_item_title :: "string option"

record contribution_pending =
  p_item_id :: int
  p_item_title :: string
  p_name :: string
  p_amount :: jsnum
  p_message :: string

record cancellation_pending =
  p_contribution_id :: int
  p_cancel_item_title :: string
  p_cancel_amount :: real

text \<open>The JSON documents the handlers answer with, and the response with its status.\<close>

datatype payload =
    Error string
  | Success
  | Created int
  | Applied real real bool
  | Chat string "contribution_pending option" "cancellation_pending option"

record response =
  status :: nat
  body :: payload

text \<open>What a handler can throw before the boundary of \<open>fetch\<close> catches it.\<close>

datatype exn = BodyNotJson | SqlConstraint | AiFailed

type_synonym 'a result = "exn + 'a"

section \<open>Helpers\<close>

definition jsonResponse :: "payload \<Rightarrow> nat \<Rightarrow> response" where
  "jsonResponse data st = \<lparr>status = st, body = data\<rparr>"

definition isAdmin :: "'b request \<Rightarrow> env \<Rightarrow> bool" where
  "isAdmin request e =
     (case x_admin_password request of None \<Rightarrow> False | Some h \<Rightarrow> h = ADMIN_PASSWORD e)"

definition isGuest :: "'b request \<Rightarrow> env \<Rightarrow> bool" where
  "isGuest request e =
     (case x_guest_password request of None \<Rightarrow> False | Some h \<Rightarrow> h = GUEST_PASSWORD e)"

text \<open>The characters \<open>String.prototype.trim\<close> removes, among the code units below 256.\<close>

definition js_space :: "char \<Rightarrow> bool" where
  "js_space c = (of_char c \<in> {9, 10, 11, 12, 13, 32, 160 :: nat})"

definition trim :: "string \<Rightarrow> string" where
  "trim s = rev (dropWhile js_space (rev (dropWhile js_space s)))"

text \<open>The class \<open>[\x00-\x1F\x7F]\<close> of \<open>sanitise\<close>.\<close>

definition control_char :: "char \<Rightarrow> bool" where
  "control_char c = ((of_char c :: nat) \<le> 31 \<or> (of_char c :: nat) = 127)"

text \<open>\<open>sanitise\<close>; None is a value that is not a string (or an absent one).\<close>

definition sanitise :: "string option \<Rightarrow> nat \<Rightarrow> string" where
  "sanitise v maxLen =
     (case v of
        None \<Rightarrow> []
      | Some s \<Rightarrow> take maxLen (trim (map (\<lambda>c. if control_char c then CHR '' '' else c) s)))"

definition MAX_MESSAGE_LENGTH :: nat where "MAX_MESSAGE_LENGTH = 300"
definition MAX_NAME_LENGTH :: nat where "MAX_NAME_LENGTH = 100"
definition MAX_GENERIC_STRING :: nat where "MAX_GENERIC_STRING = 500"

definition getIP :: "'b request \<Rightarrow> string" where
  "getIP request =
     (case cf_connecting_ip request of
        Some ip \<Rightarrow> ip
      | None \<Rightarrow>
          (case x_forwarded_for request of
             Some xff \<Rightarrow> trim (takeWhile (\<lambda>c. c \<noteq> CHR '','') xff)
           | None \<Rightarrow> ''unknown''))"

section \<open>The record store\<close>

text \<open>
  The SQL the handlers send, statement by statement. A statement yields None when SQLite
  rejects it: the CHECK constraints of \<open>schema.sql\<close> are tested on every row a statement
  writes. \<open>batch\<close> is D1's transaction: the first rejected statement rolls the whole
  sequence back. The column \<open>contributor_ip\<close> is the nullable one of the \<open>Contribution\<close>
  interface, which \<open>schema.sql\<close> does not list; the columns \<open>sort_order\<close> and
  \<open>is_generic\<close>, which no handler reads or writes, are left out.
\<close>

definition item_checks :: "item \<Rightarrow> bool" where
  "item_checks i =
     (0 < length (title i) \<and> 0 \<le> price_total i \<and> 0 \<le> price_raised i \<and>
      (is_funded i = 0 \<or> is_funded i = 1))"

definition contribution_checks :: "contribution \<Rightarrow> bool" where
  "contribution_checks c = (0 < length (contributor_name c) \<and> 0 < amount c)"

fun batch :: "(db \<Rightarrow> db option) list \<Rightarrow> db \<Rightarrow> db option" where
  "batch [] d = Some d"
| "batch (s # ss) d = (case s d of None \<Rightarrow> None | Some d' \<Rightarrow> batch ss d')"

text \<open>\<open>SELECT * FROM items WHERE id=?\<close>, first row.\<close>

definition select_item :: "db \<Rightarrow> int \<Rightarrow> item option" where
  "select_item d k = find (\<lambda>i. i_id i = k) (items d)"

text \<open>An UPDATE of the items that satisfy \<open>P\<close>.\<close>

definition update_items :: "(item \<Rightarrow> bool) \<Rightarrow> (item \<Rightarrow> item) \<Rightarrow> db \<Rightarrow> db option" where
  "update_items P f d =
     (if list_all (\<lambda>i. \<not> P i \<or> item_checks (f i)) (items d)
      then Some (d\<lparr>items := map (\<lambda>i. if P i then f i else i) (items d)\<rparr>)
      else None)"

text \<open>
  \<open>INSERT INTO items (title, description, image_url, product_url, price_total)\<close>: the
  other columns take their defaults. The result carries \<open>last_row_id\<close>.
\<close>

definition insert_item ::
  "string \<Rightarrow> string \<Rightarrow> string \<Rightarrow> string \<Rightarrow> real \<Rightarrow> string \<Rightarrow> db \<Rightarrow> (db \<times> int) option" where
  "insert_item t ds img url tot now d =
     (let row = \<lparr>i_id = items_seq d + 1, title = t, description = ds, image_url = img,
                 product_url = url, price_total = tot, price_raised = 0, is_funded = 0,
                 created_at = now\<rparr>
      in if item_checks row
         then Some (d\<lparr>items := items d @ [row], items_seq := items_seq d + 1\<rparr>,
                    items_seq d + 1)
         else None)"

text \<open>
  \<open>UPDATE items SET title=?, description=?, image_url=?, product_url=?, price_total=?,
  is_funded=? WHERE id=?\<close>
\<close>

definition update_item_fields ::
  "string \<Rightarrow> string \<Rightarrow> string \<Rightarrow> string \<Rightarrow> real \<Rightarrow> int \<Rightarrow> int \<Rightarrow> db \<Rightarrow> db option" where
  "update_item_fields t ds img url tot funded k =
     update_items (\<lambda>i. i_id i = k)
       (\<lambda>i. i\<lparr>title := t, description := ds, image_url := img, product_url := url,
               price_total := tot, is_funded := funded\<rparr>)"

text \<open>
  \<open>INSERT INTO contributions (item_id, contributor_name, amount, message, contributor_ip)\<close>
\<close>

definition insert_contribution ::
  "int \<Rightarrow> string \<Rightarrow> real \<Rightarrow> string \<Rightarrow> string \<Rightarrow> string \<Rightarrow> db \<Rightarrow> db option" where
  "insert_contribution k name a msg ip now d =
     (let row = \<lparr>c_id = contributions_seq d + 1, item_id = k, contributor_name = name,
                 contributor_ip = Some ip, amount = a, message = msg, c_created_at = now,
                 item_title = None\<rparr>
      in if contribution_checks row
         then Some (d\<lparr>contributions := contributions d @ [row],
                      contributions_seq := contributions_seq d + 1\<rparr>)
         else None)"

text \<open>\<open>UPDATE items SET price_raised=?, is_funded=? WHERE id=?\<close>\<close>

definition update_item_funding :: "real \<Rightarrow> int \<Rightarrow> int \<Rightarrow> db \<Rightarrow> db option" where
  "update_item_funding raised funded k =
     update_items (\<lambda>i. i_id i = k) (\<lambda>i. i\<lparr>price_raised := raised, is_funded := funded\<rparr>)"

text \<open>\<open>SELECT id, item_id, amount FROM contributions WHERE id=? AND contributor_ip=?\<close>\<close>

definition select_own_contribution :: "db \<Rightarrow> int \<Rightarrow> string \<Rightarrow> contribution option" where
  "select_own_contribution d k ip =
     find (\<lambda>c. c_id c = k \<and> contributor_ip c = Some ip) (contributions d)"

text \<open>\<open>SELECT id, item_id, amount FROM contributions WHERE id=?\<close>\<close>

definition select_contribution :: "db \<Rightarrow> int \<Rightarrow> contribution option" where
  "select_contribution d k = find (\<lambda>c. c_id c = k) (contributions d)"

text \<open>\<open>DELETE FROM contributions WHERE id=?\<close>\<close>

definition delete_contribution :: "int \<Rightarrow> db \<Rightarrow> db option" where
  "delete_contribution k d =
     Some (d\<lparr>contributions := filter (\<lambda>c. c_id c \<noteq> k) (contributions d)\<rparr>)"

text \<open>
  \<open>UPDATE items SET price_raised = MAX(0, price_raised - ?), is_funded = 0 WHERE id=?\<close>.
  The difference is the one of SQLite on doubles; it is exact here.
\<close>

definition release_item_funding :: "real \<Rightarrow> int \<Rightarrow> db \<Rightarrow> db option" where
  "release_item_funding a k =
     update_items (\<lambda>i. i_id i = k)
       (\<lambda>i. i\<lparr>price_raised := max 0 (price_raised i - a), is_funded := 0\<rparr>)"

text \<open>\<open>SELECT count FROM chat_rate_limit WHERE ip=? AND day=?\<close>\<close>

definition select_count :: "db \<Rightarrow> string \<Rightarrow> string \<Rightarrow> nat option" where
  "select_count d ip day =
     map_option rl_count (find (\<lambda>r. rl_ip r = ip \<and> rl_day r = day) (chat_rate_limit d))"

text \<open>\<open>DELETE FROM chat_rate_limit WHERE ip=? AND day=?\<close>\<close>

definition delete_count :: "string \<Rightarrow> string \<Rightarrow> db \<Rightarrow> db" where
  "delete_count ip day d =
     d\<lparr>chat_rate_limit :=
         filter (\<lambda>r. \<not> (rl_ip r = ip \<and> rl_day r = day)) (chat_rate_limit d)\<rparr>"

text \<open>
  \<open>INSERT INTO chat_rate_limit (ip, day, count) VALUES (?, ?, 1)
  ON CONFLICT(ip, day) DO UPDATE SET count = count + 1\<close>
\<close>

definition bump_count :: "string \<Rightarrow> string \<Rightarrow> db \<Rightarrow> db" where
  "bump_count ip day d =
     (if list_ex (\<lambda>r. rl_ip r = ip \<and> rl_day r = day) (chat_rate_limit d)
      then d\<lparr>chat_rate_limit :=
               map (\<lambda>r. if rl_ip r = ip \<and> rl_day r = day then r\<lparr>rl_count := rl_count r + 1\<rparr>
                        else r)
                 (chat_rate_limit d)\<rparr>
      else d\<lparr>chat_rate_limit :=
               chat_rate_limit d @ [\<lparr>rl_ip = ip, rl_day = day, rl_count = 1\<rparr>]\<rparr>)"

section \<open>Route handlers of the ledger\<close>

definition handleCreateItem :: "item_body request \<Rightarrow> env \<Rightarrow> db \<Rightarrow> (response \<times> db) result" where
  "handleCreateItem request e d =
     (if \<not> isAdmin request e then Inr (jsonResponse (Error ''Unauthorized'') 401, d)
      else case json request of
        None \<Rightarrow> Inl BodyNotJson
      | Some b \<Rightarrow>
          (let t = sanitise (b_title b) MAX_GENERIC_STRING in
           if t = [] then Inr (jsonResponse (Error ''title is required'') 400, d)
           else case b_price_total b of
             None \<Rightarrow> Inr (jsonResponse (Error ''price_total must be >= 0'') 400, d)
           | Some tot \<Rightarrow>
               if tot < 0
               then Inr (jsonResponse (Error ''price_total must be >= 0'') 400, d)
               else
                 (case insert_item t
                         (sanitise (b_description b) MAX_GENERIC_STRING)
                         (sanitise (b_image_url b) MAX_GENERIC_STRING)
                         (sanitise (b_product_url b) MAX_GENERIC_STRING)
                         tot (now_sql request) d of
                    None \<Rightarrow> Inl SqlConstraint
                  | Some (d', k) \<Rightarrow> Inr (jsonResponse (Created k) 201, d'))))"

text \<open>\<open>a || b\<close> on strings: the empty string is falsy.\<close>

definition or_else :: "string \<Rightarrow> string \<Rightarrow> string" where
  "or_else a b = (if a = [] then b else a)"

text \<open>
  The route only matches a decimal identifier, so the \<open>isNaN(id)\<close> test of the handler
  never fires and has no branch here.
\<close>

definition handleUpdateItem ::
  "item_body request \<Rightarrow> env \<Rightarrow> db \<Rightarrow> int \<Rightarrow> (response \<times> db) result" where
  "handleUpdateItem request e d k =
     (if \<not> isAdmin request e then Inr (jsonResponse (Error ''Unauthorized'') 401, d)
      else case json request of
        None \<Rightarrow> Inl BodyNotJson
      | Some b \<Rightarrow>
          (let t = sanitise (b_title b) MAX_GENERIC_STRING in
           if t = [] then Inr (jsonResponse (Error ''title is required'') 400, d)
           else case select_item d k of
             None \<Rightarrow> Inr (jsonResponse (Error ''Item not found'') 404, d)
           | Some existing \<Rightarrow>
               (case update_item_fields t
                       (or_else (sanitise (b_description b) MAX_GENERIC_STRING)
                          (description existing))
                       (or_else (sanitise (b_image_url b) MAX_GENERIC_STRING)
                          (image_url existing))
                       (or_else (sanitise (b_product_url b) MAX_GENERIC_STRING)
                          (product_url existing))
                       (case b_price_total b of Some p \<Rightarrow> p | None \<Rightarrow> price_total existing)
                       (case b_is_funded b of Some f \<Rightarrow> f | None \<Rightarrow> is_funded existing)
                       k d of
                  None \<Rightarrow> Inl SqlConstraint
                | Some d' \<Rightarrow> Inr (jsonResponse Success 200, d'))))"

text \<open>
  \<open>handleCreateContribution\<close>. Past the test of the amount the number is finite. The
  four values of lines 265 to 268 are computed in the order of the source:
  \<open>remaining = price_total - price_raised\<close>, \<open>appliedAmount = min amount remaining\<close>,
  \<open>newRaised = price_raised + appliedAmount\<close> and \<open>isFunded = (newRaised \<ge> price_total)\<close>.
  The worker computes them in doubles, where \<open>newRaised\<close> is the rounded sum and can pass
  \<open>price_total\<close> by one unit in the last place; the difference and the sum below are exact.
\<close>

definition apply_contribution ::
  "contribution_body request \<Rightarrow> contribution_body \<Rightarrow> db \<Rightarrow> int \<Rightarrow> string \<Rightarrow> real \<Rightarrow> item \<Rightarrow>
   (response \<times> db) result" where
  "apply_contribution request b d itemId name a it =
     (let remaining = price_total it - price_raised it;
          appliedAmount = min a remaining;
          newRaised = price_raised it + appliedAmount;
          isFunded = (if newRaised \<ge> price_total it then 1 else 0 :: int);
          contributorIp = getIP request
      in case batch
              [insert_contribution itemId name appliedAmount
                 (sanitise (b_message b) MAX_MESSAGE_LENGTH) contributorIp (now_sql request),
               update_item_funding newRaised isFunded itemId] d of
           None \<Rightarrow> Inl SqlConstraint
         | Some d' \<Rightarrow> Inr (jsonResponse (Applied appliedAmount newRaised (isFunded = 1)) 201, d'))"

definition handleCreateContribution ::
  "contribution_body request \<Rightarrow> env \<Rightarrow> db \<Rightarrow> (response \<times> db) result" where
  "handleCreateContribution request e d =
     (if \<not> isGuest request e \<and> \<not> isAdmin request e
      then Inr (jsonResponse (Error ''Unauthorized'') 401, d)
      else case json request of
        None \<Rightarrow> Inl BodyNotJson
      | Some b \<Rightarrow>
          (case b_item_id b of
             None \<Rightarrow> Inr (jsonResponse (Error ''item_id is required'') 400, d)
           | Some itemId \<Rightarrow>
               if itemId = 0 then Inr (jsonResponse (Error ''item_id is required'') 400, d)
               else
                 (let name = sanitise (b_contributor_name b) MAX_NAME_LENGTH in
                  if name = []
                  then Inr (jsonResponse (Error ''contributor_name is required'') 400, d)
                  else
                    (let amount = Number (b_amount b) in
                     if falsy_num amount \<or> le_zero amount \<or> \<not> isFinite amount
                     then Inr (jsonResponse (Error ''amount must be > 0'') 400, d)
                     else
                       (case amount of
                          Num a \<Rightarrow>
                            (case select_item d itemId of
                               None \<Rightarrow> Inr (jsonResponse (Error ''Item not found'') 404, d)
                             | Some it \<Rightarrow>
                                 if is_funded it = 1
                                 then Inr (jsonResponse
                                        (Error ''This item is already fully funded'') 409, d)
                                 else apply_contribution request b d itemId name a it)
                        | _ \<Rightarrow> Inr (jsonResponse (Error ''amount must be > 0'') 400, d))))))"

text \<open>
  The message of the owner's route, \<open>Nao encontrado\<close> with a tilde on its first \<open>a\<close>:
  code unit 227.
\<close>

definition nao_encontrado :: string where
  "nao_encontrado = ''N'' @ [char_of (227 :: nat)] @ ''o encontrado''"

definition handleDeleteMyContribution ::
  "'b request \<Rightarrow> env \<Rightarrow> db \<Rightarrow> int \<Rightarrow> (response \<times> db) result" where
  "handleDeleteMyContribution request e d k =
     (if \<not> isGuest request e \<and> \<not> isAdmin request e
      then Inr (jsonResponse (Error ''Unauthorized'') 401, d)
      else
        (let ip = getIP request in
         case select_own_contribution d k ip of
           None \<Rightarrow> Inr (jsonResponse (Error nao_encontrado) 404, d)
         | Some c \<Rightarrow>
             (case batch [delete_contribution k,
                          release_item_funding (amount c) (item_id c)] d of
                None \<Rightarrow> Inl SqlConstraint
              | Some d' \<Rightarrow> Inr (jsonResponse Success 200, d'))))"

definition handleAdminDeleteContribution ::
  "'b request \<Rightarrow> env \<Rightarrow> db \<Rightarrow> int \<Rightarrow> (response \<times> db) result" where
  "handleAdminDeleteContribution request e d k =
     (if \<not> isAdmin request e then Inr (jsonResponse (Error ''Unauthorized'') 401, d)
      else case select_contribution d k of
        None \<Rightarrow> Inr (jsonResponse (Error ''Not found'') 404, d)
      | Some c \<Rightarrow>
          (case batch [delete_contribution k,
                       release_item_funding (amount c) (item_id c)] d of
             None \<Rightarrow> Inl SqlConstraint
           | Some d' \<Rightarrow> Inr (jsonResponse Success 200, d')))"

section \<open>The chat turn\<close>

definition GENERIC_DONATION_TITLE :: string where
  "GENERIC_DONATION_TITLE =
     ''Doa'' @ [char_of (231 :: nat), char_of (227 :: nat)] @ ''o Geral para Mobil'' @
     [char_of (237 :: nat)] @ ''a/Obras''"

text \<open>
  The registry snapshot of the turn: every item, generic donation last, unfunded first,
  oldest first.
\<close>

definition items_snapshot :: "db \<Rightarrow> item list" where
  "items_snapshot d =
     sort_key (\<lambda>i. (if title i = GENERIC_DONATION_TITLE then 1 else 0 :: nat,
                     is_funded i, created_at i))
       (items d)"

text \<open>
  The caller's own contributions, joined with the title of their item, newest first.
\<close>

definition my_contributions :: "db \<Rightarrow> string \<Rightarrow> contribution list" where
  "my_contributions d ip =
     rev (sort_key c_created_at
       (concat (map (\<lambda>c. map (\<lambda>i. c\<lparr>item_title := Some (title i)\<rparr>)
                            (filter (\<lambda>i. i_id i = item_id c) (items d)))
                  (filter (\<lambda>c. contributor_ip c = Some ip) (contributions d)))))"

text \<open>
  What \<open>env.AI.run\<close> does is not the worker's to decide: the call rejects, or it resolves
  to an object whose \<open>response\<close> field is a string or is missing. The two calls of a turn
  are given by their outcomes.
\<close>

datatype ai_outcome = Rejects | Resolves "string option"

definition fallback_reply :: string where
  "fallback_reply = ''Estou com dificuldades em responder agora. Por favor tenta novamente!''"

text \<open>\<open>rawReply.replace(/\[CONTRIBUTION:[^\]]*\]/gs, "")\<close>\<close>

function strip_markers :: "string \<Rightarrow> string" where
  "strip_markers [] = []"
| "strip_markers (c # cs) =
     (if take 14 (c # cs) = ''[CONTRIBUTION:'' \<and> CHR '']'' \<in> set (drop 14 (c # cs))
      then strip_markers (tl (dropWhile (\<lambda>x. x \<noteq> CHR '']'') (drop 14 (c # cs))))
      else c # strip_markers cs)"
  by pat_completeness auto
termination
proof (relation "measure length")
  show "wf (measure length)" by simp
next
  fix c :: char and cs :: string
  have "length (tl (dropWhile (\<lambda>x. x \<noteq> CHR '']'') (drop 14 (c # cs))))
          \<le> length (drop 14 (c # cs))"
    using length_dropWhile_le [of "\<lambda>x. x \<noteq> CHR '']''" "drop 14 (c # cs)"] by simp
  then show "(tl (dropWhile (\<lambda>x. x \<noteq> CHR '']'') (drop 14 (c # cs))), c # cs)
               \<in> measure length"
    by simp
next
  fix c :: char and cs :: string
  show "(cs, c # cs) \<in> measure length" by simp
qed

text \<open>
  \<open>extractorRaw.match(/\{[\s\S]*?\}/)\<close>: the lazy quantifier stops at the first closing
  brace after the first opening brace.
\<close>

definition jsonMatch :: "string \<Rightarrow> string option" where
  "jsonMatch extractorRaw =
     (case dropWhile (\<lambda>c. c \<noteq> CHR ''{'') extractorRaw of
        [] \<Rightarrow> None
      | c # rest \<Rightarrow>
          if CHR ''}'' \<in> set rest
          then Some (c # takeWhile (\<lambda>x. x \<noteq> CHR ''}'') rest @ ''}'')
          else None)"

text \<open>\<open>String(v ?? "")\<close> of an optional string.\<close>

definition str_or_empty :: "string option \<Rightarrow> string" where
  "str_or_empty v = (case v of Some s \<Rightarrow> s | None \<Rightarrow> [])"

text \<open>
  The checks of the \<open>try\<close> block on the parsed object: what is surfaced as pending.
\<close>

definition surface_pending ::
  "extracted \<Rightarrow> item list \<Rightarrow> contribution list \<Rightarrow>
   contribution_pending option \<times> cancellation_pending option" where
  "surface_pending data its myContributions =
     (if x_action data = Some ''contribute'' then
        (case find (\<lambda>i. Num (of_int (i_id i)) = Number (x_item_id data)) its of
           None \<Rightarrow> (None, None)
         | Some it \<Rightarrow>
             if x_name data \<noteq> None \<and> x_name data \<noteq> Some [] \<and>
                gt_zero (Number (x_amount data)) \<and> is_funded it = 0
             then (Some \<lparr>p_item_id = i_id it, p_item_title = title it,
                          p_name = str_or_empty (x_name data),
                          p_amount = Number (x_amount data),
                          p_message = str_or_empty (x_message data)\<rparr>, None)
             else (None, None))
      else if x_action data = Some ''cancel'' then
        (case find (\<lambda>c. Num (of_int (c_id c)) = Number (x_contribution_id data))
                myContributions of
           None \<Rightarrow> (None, None)
         | Some existing \<Rightarrow>
             (None, Some \<lparr>p_contribution_id = c_id existing,
                          p_cancel_item_title =
                            (case item_title existing of
                               Some t \<Rightarrow> t
                             | None \<Rightarrow> str_or_empty (x_item_title data)),
                          p_cancel_amount = amount existing\<rparr>))
      else (None, None))"

text \<open>
  The \<open>try\<close> block. \<open>JSON.parse\<close> is a parameter: None where it throws, which the \<open>catch\<close>
  swallows.
\<close>

definition extract_pending ::
  "(string \<Rightarrow> extracted option) \<Rightarrow> item list \<Rightarrow> contribution list \<Rightarrow> string \<Rightarrow>
   contribution_pending option \<times> cancellation_pending option" where
  "extract_pending JSON_parse its myContributions extractorRaw =
     (case jsonMatch extractorRaw of
        None \<Rightarrow> (None, None)
      | Some m \<Rightarrow>
          (case JSON_parse m of
             None \<Rightarrow> (None, None)
           | Some data \<Rightarrow> surface_pending data its myContributions))"

definition handleChat ::
  "chat_body request \<Rightarrow> env \<Rightarrow> db \<Rightarrow> ai_outcome \<Rightarrow> ai_outcome \<Rightarrow>
   (string \<Rightarrow> extracted option) \<Rightarrow> (response \<times> db) result" where
  "handleChat request e d responder extractor JSON_parse =
     (if \<not> isGuest request e \<and> \<not> isAdmin request e
      then Inr (jsonResponse (Error ''Unauthorized'') 401, d)
      else case json request of
        None \<Rightarrow> Inl BodyNotJson
      | Some b \<Rightarrow>
          if sanitise (b_chat_message b) MAX_MESSAGE_LENGTH = []
          then Inr (jsonResponse (Error ''message is required'') 400, d)
          else
            (let ip = getIP request;
                 its = items_snapshot d;
                 myContributions = my_contributions d ip
             in case responder of
                  Rejects \<Rightarrow> Inl AiFailed
                | Resolves aiResponse \<Rightarrow>
                    (let rawReply = (case aiResponse of Some r \<Rightarrow> r | None \<Rightarrow> fallback_reply);
                         reply = trim (strip_markers rawReply)
                     in case extractor of
                          Rejects \<Rightarrow> Inl AiFailed
                        | Resolves extractorResponse \<Rightarrow>
                            (let extractorRaw =
                                   (case extractorResponse of Some r \<Rightarrow> r | None \<Rightarrow> ''null'');
                                 pending =
                                   extract_pending JSON_parse its myContributions extractorRaw
                             in Inr (jsonResponse (Chat reply (fst pending) (snd pending)) 200,
                                     d)))))"

section \<open>The login-attempt limiter\<close>

definition handleAdminAuth :: "auth_body request \<Rightarrow> env \<Rightarrow> db \<Rightarrow> (response \<times> db) result" where
  "handleAdminAuth request e d =
     (let ip = (case cf_connecting_ip request of Some a \<Rightarrow> a | None \<Rightarrow> ''unknown'');
          day = take 10 (now_iso request);
          attempts = (case select_count d (''admin:'' @ ip) day of Some n \<Rightarrow> n | None \<Rightarrow> 0)
      in if attempts \<ge> 10
         then Inr (jsonResponse (Error ''Too many attempts. Try again tomorrow.'') 429, d)
         else case json request of
           None \<Rightarrow> Inl BodyNotJson
         | Some b \<Rightarrow>
             if b_password b = Some (ADMIN_PASSWORD e)
             then Inr (jsonResponse Success 200, delete_count (''admin:'' @ ip) day d)
             else Inr (jsonResponse (Error ''Incorrect password'') 401,
                       bump_count (''admin:'' @ ip) day d))"

definition handleGuestAuth :: "auth_body request \<Rightarrow> env \<Rightarrow> db \<Rightarrow> (response \<times> db) result" where
  "handleGuestAuth request e d =
     (let ip = (case cf_connecting_ip request of Some a \<Rightarrow> a | None \<Rightarrow> ''unknown'');
          day = take 10 (now_iso request);
          attempts = (case select_count d (''guest:'' @ ip) day of Some n \<Rightarrow> n | None \<Rightarrow> 0)
      in if attempts \<ge> 10
         then Inr (jsonResponse (Error ''Too many attempts. Try again tomorrow.'') 429, d)
         else case json request of
           None \<Rightarrow> Inl BodyNotJson
         | Some b \<Rightarrow>
             if b_password b = Some (GUEST_PASSWORD e)
             then Inr (jsonResponse Success 200, delete_count (''guest:'' @ ip) day d)
             else Inr (jsonResponse (Error ''Palavra-passe incorreta'') 401,
                       bump_count (''guest:'' @ ip) day d))"

section \<open>The main fetch handler\<close>

text \<open>
  The routes with a handler above, each with the request it is called on; the identifier of
  a route is the decimal number its path ends with. The read-only routes and the deletion
  of an item are left out.
\<close>

datatype call =
    PostItems "item_body request"
  | PutItem int "item_body request"
  | PostContributions "contribution_body request"
  | DeleteContribution int "unit request"
  | DeleteMyContribution int "unit request"
  | PostChat "chat_body request" ai_outcome ai_outcome
  | PostAdminAuth "auth_body request"
  | PostGuestAuth "auth_body request"

fun dispatch ::
  "env \<Rightarrow> (string \<Rightarrow> extracted option) \<Rightarrow> db \<Rightarrow> call \<Rightarrow> (response \<times> db) result" where
  "dispatch e p d (PostItems r) = handleCreateItem r e d"
| "dispatch e p d (PutItem k r) = handleUpdateItem r e d k"
| "dispatch e p d (PostContributions r) = handleCreateContribution r e d"
| "dispatch e p d (DeleteContribution k r) = handleAdminDeleteContribution r e d k"
| "dispatch e p d (DeleteMyContribution k r) = handleDeleteMyContribution r e d k"
| "dispatch e p d (PostChat r a1 a2) = handleChat r e d a1 a2 p"
| "dispatch e p d (PostAdminAuth r) = handleAdminAuth r e d"
| "dispatch e p d (PostGuestAuth r) = handleGuestAuth r e d"

text \<open>
  The \<open>try\<close> of \<open>fetch\<close>: whatever a handler throws becomes the response 500. Every handler
  writes at most once, in its last statement, so a thrown request leaves the store as it
  was.
\<close>

definition fetch ::
  "env \<Rightarrow> (string \<Rightarrow> extracted option) \<Rightarrow> db \<Rightarrow> call \<Rightarrow> response \<times> db" where
  "fetch e p d c =
     (case dispatch e p d c of
        Inl err \<Rightarrow> (jsonResponse (Error ''Internal Server Error'') 500, d)
      | Inr r \<Rightarrow> r)"

section \<open>The store as the schema leaves it\<close>

text \<open>
  What the schema guarantees of every stored row: the CHECK constraints, the primary keys,
  and that no key is ahead of its AUTOINCREMENT sequence. Every handler keeps it.
\<close>

definition schema_ok :: "db \<Rightarrow> bool" where
  "schema_ok d =
     (list_all item_checks (items d) \<and> list_all contribution_checks (contributions d) \<and>
      distinct (map i_id (items d)) \<and> distinct (map c_id (contributions d)) \<and>
      list_all (\<lambda>i. i_id i \<le> items_seq d) (items d) \<and>
      list_all (\<lambda>c. c_id c \<le> contributions_seq d) (contributions d))"

text \<open>The attempt counter of an identity on a day, zero when it has no row.\<close>

definition attempts_of :: "db \<Rightarrow> string \<Rightarrow> string \<Rightarrow> nat" where
  "attempts_of d ip day = (case select_count d ip day of Some n \<Rightarrow> n | None \<Rightarrow> 0)"

text \<open>A sequence of requests, each served on the store the one before left.\<close>

fun serve :: "env \<Rightarrow> (string \<Rightarrow> extracted option) \<Rightarrow> db \<Rightarrow> call list \<Rightarrow> db" where
  "serve e p d [] = d"
| "serve e p d (c # cs) = serve e p (snd (fetch e p d c)) cs"

section \<open>Sample data\<close>

definition env0 :: env where
  "env0 = \<lparr>ADMIN_PASSWORD = ''admin-secret'', GUEST_PASSWORD = ''guest-secret''\<rparr>"

definition guest_from :: "string \<Rightarrow> 'b option \<Rightarrow> 'b request" where
  "guest_from ip b =
     \<lparr>x_admin_password = None, x_guest_password = Some ''guest-secret'',
      cf_connecting_ip = Some ip, x_forwarded_for = None,
      now_iso = ''2026-04-11T15:00:00.000Z'', now_sql = ''2026-04-11 15:00:00'', json = b\<rparr>"

definition admin_from :: "string \<Rightarrow> 'b option \<Rightarrow> 'b request" where
  "admin_from ip b =
     \<lparr>x_admin_password = Some ''admin-secret'', x_guest_password = None,
      cf_connecting_ip = Some ip, x_forwarded_for = None,
      now_iso = ''2026-04-11T15:00:00.000Z'', now_sql = ''2026-04-11 15:00:00'', json = b\<rparr>"

definition anyone_from :: "string \<Rightarrow> 'b option \<Rightarrow> 'b request" where
  "anyone_from ip b =
     \<lparr>x_admin_password = None, x_guest_password = None,
      cf_connecting_ip = Some ip, x_forwarded_for = None,
      now_iso = ''2026-04-11T15:00:00.000Z'', now_sql = ''2026-04-11 15:00:00'', json = b\<rparr>"

definition crib :: item where
  "crib = \<lparr>i_id = 1, title = ''Crib'', description = ''A crib'', image_url = [],
            product_url = [], price_total = 100, price_raised = 80, is_funded = 0,
            created_at = ''2026-03-01 10:00:00''\<rparr>"

definition db_crib :: db where
  "db_crib = \<lparr>items = [crib], items_seq = 1, contributions = [], contributions_seq = 0,
               chat_rate_limit = []\<rparr>"

definition pledge50 :: contribution_body where
  "pledge50 = \<lparr>b_item_id = Some 1, b_contributor_name = Some ''Ana'',
                b_amount = Some (Num 50), b_message = None\<rparr>"

definition ana_row :: contribution where
  "ana_row = \<lparr>c_id = 1, item_id = 1, contributor_name = ''Ana'',
               contributor_ip = Some ''203.0.113.7'', amount = 20, message = [],
               c_created_at = ''2026-04-11 15:00:00'', item_title = None\<rparr>"

definition db_crib_funded :: db where
  "db_crib_funded =
     \<lparr>items = [crib\<lparr>price_raised := 100, is_funded := 1\<rparr>], items_seq = 1,
      contributions = [ana_row], contributions_seq = 1, chat_rate_limit = []\<rparr>"

text \<open>An item whose target is zero, as \<open>POST /api/items\<close> stores it.\<close>

definition free_gift_body :: item_body where
  "free_gift_body = \<lparr>b_title = Some ''Hugs'', b_description = None, b_image_url = None,
                      b_product_url = None, b_price_total = Some 0, b_is_funded = None\<rparr>"

definition db_empty :: db where
  "db_empty = \<lparr>items = [], items_seq = 0, contributions = [], contributions_seq = 0,
                chat_rate_limit = []\<rparr>"

definition free_gift :: item where
  "free_gift = \<lparr>i_id = 1, title = ''Hugs'', description = [], image_url = [],
                 product_url = [], price_total = 0, price_raised = 0, is_funded = 0,
                 created_at = ''2026-04-11 15:00:00''\<rparr>"

definition db_free_gift :: db where
  "db_free_gift = \<lparr>items = [free_gift], items_seq = 1, contributions = [],
                    contributions_seq = 0, chat_rate_limit = []\<rparr>"

text \<open>Two items with a contribution each, both pledged from the same address.\<close>

definition bassinet :: item where
  "bassinet = \<lparr>i_id = 1, title = ''Bassinet'', description = [], image_url = [], product_url = [],
           price_total = 50, price_raised = 100, is_funded = 1,
           created_at = ''2026-03-01 10:00:00''\<rparr>"

definition pram :: item where
  "pram = \<lparr>i_id = 2, title = ''Pram'', description = [], image_url = [], product_url = [],
            price_total = 120, price_raised = 100, is_funded = 0,
            created_at = ''2026-03-02 10:00:00''\<rparr>"

definition bea_row :: contribution where
  "bea_row = \<lparr>c_id = 1, item_id = 1, contributor_name = ''Bea'',
               contributor_ip = Some ''203.0.113.7'', amount = 30, message = [],
               c_created_at = ''2026-04-01 09:00:00'', item_title = None\<rparr>"

definition carl_row :: contribution where
  "carl_row = \<lparr>c_id = 2, item_id = 2, contributor_name = ''Carl'',
                contributor_ip = Some ''203.0.113.7'', amount = 150, message = [],
                c_created_at = ''2026-04-02 09:00:00'', item_title = None\<rparr>"

definition db_two :: db where
  "db_two = \<lparr>items = [bassinet, pram], items_seq = 2, contributions = [bea_row, carl_row],
              contributions_seq = 2, chat_rate_limit = []\<rparr>"

text \<open>
  The same store once the admin has cancelled the row of Bea: the bassinet holds 70 of a
  target of 50 and its \<open>is_funded\<close> is 0.
\<close>

definition db_overfull :: db where
  "db_overfull = \<lparr>items = [bassinet\<lparr>price_raised := 70, is_funded := 0\<rparr>, pram],
                   items_seq = 2, contributions = [carl_row], contributions_seq = 2,
                   chat_rate_limit = []\<rparr>"

text \<open>Patches for \<open>PUT /api/items/1\<close>.\<close>

definition untitled_patch :: item_body where
  "untitled_patch = \<lparr>b_title = Some ''  '', b_description = Some ''A sturdy crib'',
                      b_image_url = None, b_product_url = None, b_price_total = None,
                      b_is_funded = None\<rparr>"

definition retitle_patch :: item_body where
  "retitle_patch = \<lparr>b_title = Some '' Oak crib '', b_description = Some [],
                     b_image_url = None, b_product_url = Some ''https://shop.example/crib'',
                     b_price_total = Some 120, b_is_funded = None\<rparr>"

text \<open>Attempt counters of one address on 2026-04-11.\<close>

definition db_three_tries :: db where
  "db_three_tries =
     db_empty\<lparr>chat_rate_limit :=
       [\<lparr>rl_ip = ''admin:203.0.113.7'', rl_day = ''2026-04-11'', rl_count = 3\<rparr>,
        \<lparr>rl_ip = ''guest:203.0.113.7'', rl_day = ''2026-04-11'', rl_count = 3\<rparr>]\<rparr>"

definition db_ten_tries :: db where
  "db_ten_tries =
     db_empty\<lparr>chat_rate_limit :=
       [\<lparr>rl_ip = ''admin:203.0.113.7'', rl_day = ''2026-04-11'', rl_count = 10\<rparr>,
        \<lparr>rl_ip = ''guest:203.0.113.7'', rl_day = ''2026-04-11'', rl_count = 10\<rparr>]\<rparr>"

definition try_password :: "string \<Rightarrow> auth_body request" where
  "try_password pw = anyone_from ''203.0.113.7'' (Some \<lparr>b_password = Some pw\<rparr>)"

section \<open>The extraction as the specification words it\<close>

text \<open>
  The specification has the pipeline locate "the first well-formed object substring" of
  the extractor's output. Stated on its own terms, for a parser \<open>p\<close>: the substring that
  starts at the leftmost opening brace from which some prefix is accepted by \<open>p\<close>, and is
  the shortest such prefix. It is compared with \<open>jsonMatch\<close> below.
\<close>

definition accepted_prefix :: "(string \<Rightarrow> extracted option) \<Rightarrow> string \<Rightarrow> string option" where
  "accepted_prefix p s = find (\<lambda>t. p t \<noteq> None) (map (\<lambda>n. take n s) [1..<Suc (length s)])"

fun first_wellformed_object :: "(string \<Rightarrow> extracted option) \<Rightarrow> string \<Rightarrow> string option" where
  "first_wellformed_object p [] = None"
| "first_wellformed_object p (c # cs) =
     (if c = CHR ''{''
      then (case accepted_prefix p (c # cs) of
              Some t \<Rightarrow> Some t
            | None \<Rightarrow> first_wellformed_object p cs)
      else first_wellformed_object p cs)"

section \<open>Sample data of the chat turn\<close>

definition contribute_json :: string where
  \<open>contribute_json =
     ''{"action":"contribute","item_id":2,"name":"Dora","amount":20,"message":""}''\<close>

definition contribute_funded_json :: string where
  \<open>contribute_funded_json =
     ''{"action":"contribute","item_id":1,"name":"Dora","amount":20,"message":""}''\<close>

definition cancel_json :: string where
  \<open>cancel_json = ''{"action":"cancel","contribution_id":2,"item_title":"Pram","amount":150}''\<close>

definition smiley_json :: string where
  \<open>smiley_json =
     ''{"action":"contribute","item_id":2,"name":"Dora","amount":20,"message":"Parabens :-}"}''\<close>

definition no_data :: extracted where
  "no_data = \<lparr>x_action = None, x_item_id = None, x_name = None, x_amount = None,
               x_message = None, x_contribution_id = None, x_item_title = None\<rparr>"

text \<open>
  What \<open>JSON.parse\<close> returns on the four documents above. On the other strings the examples
  hand to the parser (proper prefixes of these documents, and \<open>{oops}\<close>) \<open>JSON.parse\<close>
  throws, and so does this table.
\<close>

definition JSON_parse_sample :: "string \<Rightarrow> extracted option" where
  "JSON_parse_sample s =
     (if s = contribute_json then
        Some (no_data\<lparr>x_action := Some ''contribute'', x_item_id := Some (Num 2),
                      x_name := Some ''Dora'', x_amount := Some (Num 20),
                      x_message := Some []\<rparr>)
      else if s = contribute_funded_json then
        Some (no_data\<lparr>x_action := Some ''contribute'', x_item_id := Some (Num 1),
                      x_name := Some ''Dora'', x_amount := Some (Num 20),
                      x_message := Some []\<rparr>)
      else if s = cancel_json then
        Some (no_data\<lparr>x_action := Some ''cancel'', x_contribution_id := Some (Num 2),
                      x_item_title := Some ''Pram'', x_amount := Some (Num 150)\<rparr>)
      else if s = smiley_json then
        Some (no_data\<lparr>x_action := Some ''contribute'', x_item_id := Some (Num 2),
                      x_name := Some ''Dora'', x_amount := Some (Num 20),
                      x_message := Some ''Parabens :-}''\<rparr>)
      else None)"

definition chat_from :: "string \<Rightarrow> chat_body request" where
  "chat_from ip =
     guest_from ip (Some \<lparr>b_chat_message = Some ''Quero contribuir'', b_history = None\<rparr>)"

section \<open>Facts about the record store\<close>

lemma select_item_mem: "select_item d k = Some it \<Longrightarrow> it \<in> set (items d) \<and> i_id it = k"
  by (auto simp: select_item_def find_Some_iff)

lemma schema_ok_item: "schema_ok d \<Longrightarrow> i \<in> set (items d) \<Longrightarrow> item_checks i"
  by (simp add: schema_ok_def list_all_iff)

lemma update_items_accepts:
  assumes "\<And>i. i \<in> set (items d) \<Longrightarrow> P i \<Longrightarrow> item_checks (f i)"
  shows "update_items P f d = Some (d\<lparr>items := map (\<lambda>i. if P i then f i else i) (items d)\<rparr>)"
  using assms by (auto simp: update_items_def list_all_iff)

lemma sanitise_absent: "sanitise None n = []"
  by (simp add: sanitise_def)


text \<open>
  The same step on a row with nothing left to raise: the clipped amount is not above zero
  and the insert is rejected.
\<close>

lemma create_contribution_rejected:
  assumes auth: "isGuest request e \<or> isAdmin request e"
    and body: "json request = Some b"
    and ident: "b_item_id b = Some k" "k \<noteq> 0"
    and name: "sanitise (b_contributor_name b) MAX_NAME_LENGTH \<noteq> []"
    and amt: "b_amount b = Some (Num a)" "0 < a"
    and found: "select_item d k = Some it"
    and unfunded: "is_funded it \<noteq> 1"
    and full: "price_total it \<le> price_raised it"
  shows "handleCreateContribution request e d = Inl SqlConstraint"
proof -
  have "\<not> 0 < min a (price_total it - price_raised it)"
    using full by simp
  then have "insert_contribution k name (min a (price_total it - price_raised it)) msg ip now d
             = None" for name msg ip now
    by (simp add: insert_contribution_def contribution_checks_def Let_def)
  then have "apply_contribution request b d k name a it = Inl SqlConstraint" for name
    by (simp add: apply_contribution_def Let_def)
  then show ?thesis
    using auth body ident name amt found unfunded
    by (auto simp add: handleCreateContribution_def Let_def)
qed

lemma select_item_updated:
  assumes "\<And>i. i_id (f i) = i_id i"
  shows "select_item (d\<lparr>items := map (\<lambda>i. if i_id i = k then f i else i) (items d)\<rparr>) j =
         (if j = k then map_option f (select_item d k) else select_item d j)"
proof -
  have "find (\<lambda>i. i_id i = j) (map (\<lambda>i. if i_id i = k then f i else i) xs) =
        (if j = k then map_option f (find (\<lambda>i. i_id i = k) xs)
         else find (\<lambda>i. i_id i = j) xs)" for xs
    using assms by (induction xs) auto
  then show ?thesis
    by (simp add: select_item_def)
qed

lemma release_accepts:
  assumes "schema_ok d"
  shows "release_item_funding a k d =
         Some (d\<lparr>items := map (\<lambda>i. if i_id i = k
                                    then i\<lparr>price_raised := max 0 (price_raised i - a),
                                           is_funded := 0\<rparr>
                                    else i) (items d)\<rparr>)"
proof -
  have "item_checks (i\<lparr>price_raised := max 0 (price_raised i - a), is_funded := 0\<rparr>)"
    if "i \<in> set (items d)" for i
    using schema_ok_item [OF assms that] by (simp add: item_checks_def)
  then show ?thesis
    unfolding release_item_funding_def by (intro update_items_accepts)
qed

lemma schema_ok_without_contribution:
  "schema_ok d \<Longrightarrow> schema_ok (d\<lparr>contributions := filter P (contributions d)\<rparr>)"
  by (simp add: schema_ok_def list_all_iff distinct_map_filter)

lemma schema_ok_update_items:
  assumes "schema_ok d" and "update_items P f d = Some d'" and "\<And>i. i_id (f i) = i_id i"
  shows "schema_ok d'"
proof -
  from assms(2) have checked: "\<forall>i \<in> set (items d). \<not> P i \<or> item_checks (f i)"
    and d': "d' = d\<lparr>items := map (\<lambda>i. if P i then f i else i) (items d)\<rparr>"
    by (auto simp: update_items_def list_all_iff split: if_splits)
  have ids: "map i_id (map (\<lambda>i. if P i then f i else i) (items d)) = map i_id (items d)"
    using assms(3) by (induction "items d") auto
  have "list_all item_checks (map (\<lambda>i. if P i then f i else i) (items d))"
    using checked assms(1) by (auto simp: list_all_iff schema_ok_def)
  moreover have "list_all (\<lambda>i. i_id i \<le> items_seq d) (map (\<lambda>i. if P i then f i else i) (items d))"
    using assms(1,3) by (auto simp: list_all_iff schema_ok_def)
  ultimately show ?thesis
    using assms(1) ids unfolding d' schema_ok_def by (simp del: map_map)
qed

lemma schema_ok_insert_contribution:
  assumes "schema_ok d" and "insert_contribution k name a msg ip now d = Some d'"
  shows "schema_ok d'"
proof -
  from assms(1) have below: "\<forall>c \<in> set (contributions d). c_id c \<le> contributions_seq d"
    by (simp add: schema_ok_def list_all_iff)
  then have fresh: "contributions_seq d + 1 \<notin> c_id ` set (contributions d)"
    by force
  from below have "\<forall>c \<in> set (contributions d). c_id c \<le> contributions_seq d + 1"
    by force
  then show ?thesis
    using assms fresh
    by (auto simp: insert_contribution_def Let_def schema_ok_def list_all_iff
        split: if_splits)
qed

lemma schema_ok_insert_item:
  assumes "schema_ok d" and "insert_item t ds img url tot now d = Some (d', k)"
  shows "schema_ok d'"
proof -
  from assms(1) have below: "\<forall>i \<in> set (items d). i_id i \<le> items_seq d"
    by (simp add: schema_ok_def list_all_iff)
  then have fresh: "items_seq d + 1 \<notin> i_id ` set (items d)"
    by force
  from below have "\<forall>i \<in> set (items d). i_id i \<le> items_seq d + 1"
    by force
  then show ?thesis
    using assms fresh
    by (auto simp: insert_item_def Let_def schema_ok_def list_all_iff split: if_splits)
qed

lemma schema_ok_counts:
  "schema_ok (delete_count ip day d) = schema_ok d"
  "schema_ok (bump_count ip day d) = schema_ok d"
  by (simp_all add: schema_ok_def delete_count_def bump_count_def)

text \<open>The two cancellations, on a row that was found.\<close>

lemma cancel_batch:
  assumes "schema_ok d"
  shows "batch [delete_contribution k, release_item_funding a j] d =
         Some (d\<lparr>contributions := filter (\<lambda>c. c_id c \<noteq> k) (contributions d),
                 items := map (\<lambda>i. if i_id i = j
                                    then i\<lparr>price_raised := max 0 (price_raised i - a),
                                           is_funded := 0\<rparr>
                                    else i) (items d)\<rparr>)"
proof -
  have "schema_ok (d\<lparr>contributions := filter (\<lambda>c. c_id c \<noteq> k) (contributions d)\<rparr>)"
    using assms by (rule schema_ok_without_contribution)
  from release_accepts [OF this] show ?thesis
    by (simp add: delete_contribution_def)
qed

lemma owner_cancel_effect:
  assumes "isGuest request e \<or> isAdmin request e"
    and "select_own_contribution d k (getIP request) = Some c"
    and "schema_ok d"
  shows "handleDeleteMyContribution request e d k =
         Inr (jsonResponse Success 200,
              d\<lparr>contributions := filter (\<lambda>x. c_id x \<noteq> k) (contributions d),
                items := map (\<lambda>i. if i_id i = item_id c
                                   then i\<lparr>price_raised := max 0 (price_raised i - amount c),
                                          is_funded := 0\<rparr>
                                   else i) (items d)\<rparr>)"
  using assms(1,2) cancel_batch [OF assms(3)]
  by (auto simp: handleDeleteMyContribution_def Let_def)

lemma admin_cancel_effect:
  assumes "isAdmin request e"
    and "select_contribution d k = Some c"
    and "schema_ok d"
  shows "handleAdminDeleteContribution request e d k =
         Inr (jsonResponse Success 200,
              d\<lparr>contributions := filter (\<lambda>x. c_id x \<noteq> k) (contributions d),
                items := map (\<lambda>i. if i_id i = item_id c
                                   then i\<lparr>price_raised := max 0 (price_raised i - amount c),
                                          is_funded := 0\<rparr>
                                   else i) (items d)\<rparr>)"
  using assms(1,2) cancel_batch [OF assms(3)]
  by (auto simp: handleAdminDeleteContribution_def)

lemma select_contribution_deleted:
  "select_contribution (d\<lparr>contributions := filter (\<lambda>x. c_id x \<noteq> k) (contributions d),
                          items := its\<rparr>) k = None"
  by (simp add: select_contribution_def find_None_iff)

lemma find_picks: "find P xs = Some x \<Longrightarrow> P x \<and> x \<in> set xs"
  by (induction xs) (auto split: if_splits)

lemma find_past:
  "\<forall>x \<in> set xs. \<not> P x \<Longrightarrow> find P (xs @ ys) = find P ys"
  by (induction xs) auto

lemma select_own_absent:
  "select_contribution d k = None \<Longrightarrow> select_own_contribution d k ip = None"
  by (auto simp: select_contribution_def select_own_contribution_def find_None_iff)

lemma select_own_mismatch:
  assumes "schema_ok d" and "select_contribution d k = Some c"
    and "contributor_ip c \<noteq> Some ip"
  shows "select_own_contribution d k ip = None"
proof -
  from assms(1) have inj: "inj_on c_id (set (contributions d))"
    by (simp add: schema_ok_def distinct_map)
  from assms(2) have c: "c \<in> set (contributions d)" "c_id c = k"
    by (auto simp: select_contribution_def find_Some_iff)
  have "x = c" if "x \<in> set (contributions d)" "c_id x = k" for x
    using inj c that by (auto dest: inj_onD)
  then show ?thesis
    using assms(3) by (auto simp: select_own_contribution_def find_None_iff)
qed



section \<open>Facts about the attempt counter\<close>

lemma attempts_after_bump:
  "attempts_of (bump_count ip day d) ip day = attempts_of d ip day + 1"
proof (cases "list_ex (\<lambda>r. rl_ip r = ip \<and> rl_day r = day) (chat_rate_limit d)")
  case True
  have "find (\<lambda>r. rl_ip r = ip \<and> rl_day r = day)
          (map (\<lambda>r. if rl_ip r = ip \<and> rl_day r = day then r\<lparr>rl_count := rl_count r + 1\<rparr>
                     else r) rows) =
        map_option (\<lambda>r. r\<lparr>rl_count := rl_count r + 1\<rparr>)
          (find (\<lambda>r. rl_ip r = ip \<and> rl_day r = day) rows)" for rows :: "rate_row list"
    by (induction rows) auto
  moreover from True obtain r where
    "find (\<lambda>r. rl_ip r = ip \<and> rl_day r = day) (chat_rate_limit d) = Some r"
    by (cases "find (\<lambda>r. rl_ip r = ip \<and> rl_day r = day) (chat_rate_limit d)")
      (auto simp: find_None_iff list_ex_iff)
  ultimately show ?thesis
    using True by (simp add: attempts_of_def select_count_def bump_count_def)
next
  case False
  then have none: "\<forall>r \<in> set (chat_rate_limit d). \<not> (rl_ip r = ip \<and> rl_day r = day)"
    by (simp add: list_ex_iff)
  then have "find (\<lambda>r. rl_ip r = ip \<and> rl_day r = day) (chat_rate_limit d) = None"
    by (simp add: find_None_iff)
  then show ?thesis
    using False none by (simp add: attempts_of_def select_count_def bump_count_def find_past)
qed

lemma count_after_delete: "select_count (delete_count ip day d) ip day = None"
  by (simp add: select_count_def delete_count_def find_None_iff)

lemma admin_auth_limited:
  assumes "10 \<le> attempts_of d (''admin:'' @ (case cf_connecting_ip request of
                                                Some a \<Rightarrow> a | None \<Rightarrow> ''unknown''))
                   (take 10 (now_iso request))"
  shows "handleAdminAuth request e d =
         Inr (jsonResponse (Error ''Too many attempts. Try again tomorrow.'') 429, d)"
  using assms by (simp add: handleAdminAuth_def attempts_of_def Let_def)

lemma admin_auth_open:
  assumes "attempts_of d (''admin:'' @ (case cf_connecting_ip request of
                                          Some a \<Rightarrow> a | None \<Rightarrow> ''unknown''))
             (take 10 (now_iso request)) < 10"
    and "json request = Some b"
  shows "handleAdminAuth request e d =
         (if b_password b = Some (ADMIN_PASSWORD e)
          then Inr (jsonResponse Success 200,
                    delete_count (''admin:'' @ (case cf_connecting_ip request of
                                                  Some a \<Rightarrow> a | None \<Rightarrow> ''unknown''))
                      (take 10 (now_iso request)) d)
          else Inr (jsonResponse (Error ''Incorrect password'') 401,
                    bump_count (''admin:'' @ (case cf_connecting_ip request of
                                                Some a \<Rightarrow> a | None \<Rightarrow> ''unknown''))
                      (take 10 (now_iso request)) d))"
  using assms by (simp add: handleAdminAuth_def attempts_of_def Let_def)

lemma guest_auth_limited:
  assumes "10 \<le> attempts_of d (''guest:'' @ (case cf_connecting_ip request of
                                                Some a \<Rightarrow> a | None \<Rightarrow> ''unknown''))
                   (take 10 (now_iso request))"
  shows "handleGuestAuth request e d =
         Inr (jsonResponse (Error ''Too many attempts. Try again tomorrow.'') 429, d)"
  using assms by (simp add: handleGuestAuth_def attempts_of_def Let_def)

lemma guest_auth_open:
  assumes "attempts_of d (''guest:'' @ (case cf_connecting_ip request of
                                          Some a \<Rightarrow> a | None \<Rightarrow> ''unknown''))
             (take 10 (now_iso request)) < 10"
    and "json request = Some b"
  shows "handleGuestAuth request e d =
         (if b_password b = Some (GUEST_PASSWORD e)
          then Inr (jsonResponse Success 200,
                    delete_count (''guest:'' @ (case cf_connecting_ip request of
                                                  Some a \<Rightarrow> a | None \<Rightarrow> ''unknown''))
                      (take 10 (now_iso request)) d)
          else Inr (jsonResponse (Error ''Palavra-passe incorreta'') 401,
                    bump_count (''guest:'' @ (case cf_connecting_ip request of
                                                Some a \<Rightarrow> a | None \<Rightarrow> ''unknown''))
                      (take 10 (now_iso request)) d))"
  using assms by (simp add: handleGuestAuth_def attempts_of_def Let_def)

text \<open>
  Wrong passwords in a row, from one address on one day: each one adds to the counter until
  it stands at ten.
\<close>

lemma admin_wrong_passwords_count:
  assumes "\<forall>r \<in> set wrong. cf_connecting_ip r = addr \<and> take 10 (now_iso r) = day \<and>
             (\<exists>b. json r = Some b \<and> b_password b \<noteq> Some (ADMIN_PASSWORD e))"
  shows "min 10 (attempts_of d (''admin:'' @ (case addr of Some a \<Rightarrow> a | None \<Rightarrow> ''unknown''))
                   day + length wrong)
         \<le> attempts_of (serve e p d (map PostAdminAuth wrong))
              (''admin:'' @ (case addr of Some a \<Rightarrow> a | None \<Rightarrow> ''unknown'')) day"
  using assms
proof (induction wrong arbitrary: d)
  case Nil
  then show ?case by simp
next
  case (Cons r rs)
  let ?key = "''admin:'' @ (case addr of Some a \<Rightarrow> a | None \<Rightarrow> ''unknown'')"
  from Cons.prems obtain b where
    r: "cf_connecting_ip r = addr" "take 10 (now_iso r) = day" "json r = Some b"
      "b_password b \<noteq> Some (ADMIN_PASSWORD e)"
    by auto
  have step: "attempts_of (snd (fetch e p d (PostAdminAuth r))) ?key day =
              (if 10 \<le> attempts_of d ?key day then attempts_of d ?key day
               else attempts_of d ?key day + 1)"
  proof (cases "10 \<le> attempts_of d ?key day")
    case True
    then show ?thesis
      using admin_auth_limited [of d r e] r(1,2) by (simp add: fetch_def)
  next
    case False
    then show ?thesis
      using admin_auth_open [of d r b e] r by (simp add: fetch_def attempts_after_bump)
  qed
  have "min 10 (attempts_of (snd (fetch e p d (PostAdminAuth r))) ?key day + length rs)
        \<le> attempts_of (serve e p (snd (fetch e p d (PostAdminAuth r))) (map PostAdminAuth rs))
             ?key day"
    using Cons.prems by (intro Cons.IH) simp
  then show ?case
    using step by (simp split: if_splits)
qed

lemma guest_wrong_passwords_count:
  assumes "\<forall>r \<in> set wrong. cf_connecting_ip r = addr \<and> take 10 (now_iso r) = day \<and>
             (\<exists>b. json r = Some b \<and> b_password b \<noteq> Some (GUEST_PASSWORD e))"
  shows "min 10 (attempts_of d (''guest:'' @ (case addr of Some a \<Rightarrow> a | None \<Rightarrow> ''unknown''))
                   day + length wrong)
         \<le> attempts_of (serve e p d (map PostGuestAuth wrong))
              (''guest:'' @ (case addr of Some a \<Rightarrow> a | None \<Rightarrow> ''unknown'')) day"
  using assms
proof (induction wrong arbitrary: d)
  case Nil
  then show ?case by simp
next
  case (Cons r rs)
  let ?key = "''guest:'' @ (case addr of Some a \<Rightarrow> a | None \<Rightarrow> ''unknown'')"
  from Cons.prems obtain b where
    r: "cf_connecting_ip r = addr" "take 10 (now_iso r) = day" "json r = Some b"
      "b_password b \<noteq> Some (GUEST_PASSWORD e)"
    by auto
  have step: "attempts_of (snd (fetch e p d (PostGuestAuth r))) ?key day =
              (if 10 \<le> attempts_of d ?key day then attempts_of d ?key day
               else attempts_of d ?key day + 1)"
  proof (cases "10 \<le> attempts_of d ?key day")
    case True
    then show ?thesis
      using guest_auth_limited [of d r e] r(1,2) by (simp add: fetch_def)
  next
    case False
    then show ?thesis
      using guest_auth_open [of d r b e] r by (simp add: fetch_def attempts_after_bump)
  qed
  have "min 10 (attempts_of (snd (fetch e p d (PostGuestAuth r))) ?key day + length rs)
        \<le> attempts_of (serve e p (snd (fetch e p d (PostGuestAuth r))) (map PostGuestAuth rs))
             ?key day"
    using Cons.prems by (intro Cons.IH) simp
  then show ?case
    using step by (simp split: if_splits)
qed

section \<open>Facts about the chat turn\<close>

lemma jsonMatch_braces:
  assumes "CHR ''{'' \<notin> set pre" and "CHR ''}'' \<notin> set mid"
  shows "jsonMatch (pre @ ''{'' @ mid @ ''}'' @ post) = Some (''{'' @ mid @ ''}'')"
proof -
  have "dropWhile (\<lambda>c. c \<noteq> CHR ''{'') (pre @ CHR ''{'' # mid @ CHR ''}'' # post) =
        CHR ''{'' # mid @ CHR ''}'' # post"
    using assms(1) by (subst dropWhile_append2) auto
  moreover have "takeWhile (\<lambda>x. x \<noteq> CHR ''}'') (mid @ CHR ''}'' # post) = mid"
    using assms(2) by (subst takeWhile_tail) auto
  ultimately show ?thesis
    by (simp add: jsonMatch_def)
qed

lemma jsonMatch_Some_iff:
  "jsonMatch raw = Some m \<longleftrightarrow>
     (\<exists>pre mid post. raw = pre @ ''{'' @ mid @ ''}'' @ post \<and> CHR ''{'' \<notin> set pre \<and>
        CHR ''}'' \<notin> set mid \<and> m = ''{'' @ mid @ ''}'')"
proof
  assume found: "jsonMatch raw = Some m"
  let ?P = "\<lambda>c. c \<noteq> CHR ''{''" and ?Q = "\<lambda>x. x \<noteq> CHR ''}''"
  from found obtain c rest where
    split: "dropWhile ?P raw = c # rest" and closing: "CHR ''}'' \<in> set rest"
    and m: "m = c # takeWhile ?Q rest @ ''}''"
    by (cases "dropWhile ?P raw") (auto simp: jsonMatch_def split: if_splits)
  have "c = CHR ''{''"
    using hd_dropWhile [of ?P raw] split by simp
  with split m have tail: "dropWhile ?P raw = CHR ''{'' # rest"
    and m: "m = CHR ''{'' # takeWhile ?Q rest @ ''}''"
    by simp_all
  from closing have "dropWhile ?Q rest \<noteq> []"
    by (auto simp: dropWhile_eq_Nil_conv)
  then obtain post where post: "dropWhile ?Q rest = CHR ''}'' # post"
    using hd_dropWhile [of ?Q rest] by (cases "dropWhile ?Q rest") auto
  have "raw = takeWhile ?P raw @ ''{'' @ takeWhile ?Q rest @ ''}'' @ post"
    using takeWhile_dropWhile_id [of ?P raw] takeWhile_dropWhile_id [of ?Q rest] tail post
    by simp
  moreover have "CHR ''{'' \<notin> set (takeWhile ?P raw)" "CHR ''}'' \<notin> set (takeWhile ?Q rest)"
    by (auto dest: set_takeWhileD)
  ultimately show "\<exists>pre mid post. raw = pre @ ''{'' @ mid @ ''}'' @ post \<and>
        CHR ''{'' \<notin> set pre \<and> CHR ''}'' \<notin> set mid \<and> m = ''{'' @ mid @ ''}''"
    using m by (intro exI [of _ "takeWhile ?P raw"] exI [of _ "takeWhile ?Q rest"]
        exI [of _ post]) simp
next
  assume "\<exists>pre mid post. raw = pre @ ''{'' @ mid @ ''}'' @ post \<and> CHR ''{'' \<notin> set pre \<and>
        CHR ''}'' \<notin> set mid \<and> m = ''{'' @ mid @ ''}''"
  then show "jsonMatch raw = Some m"
    using jsonMatch_braces by blast
qed

lemma my_contributions_mem:
  assumes "c' \<in> set (my_contributions d ip)"
  shows "\<exists>c \<in> set (contributions d). contributor_ip c = Some ip \<and> c_id c' = c_id c \<and>
           amount c' = amount c \<and> item_id c' = item_id c"
  using assms by (auto simp: my_contributions_def)

lemma items_snapshot_set: "set (items_snapshot d) = set (items d)"
  by (simp add: items_snapshot_def)

lemma extract_pending_contribution:
  assumes "extract_pending p its mine raw = (Some c, xp)"
  shows "xp = None \<and>
         (\<exists>m data it. jsonMatch raw = Some m \<and> p m = Some data \<and>
            x_action data = Some ''contribute'' \<and> it \<in> set its \<and>
            Number (x_item_id data) = Num (of_int (i_id it)) \<and> p_item_id c = i_id it \<and>
            p_item_title c = title it \<and> is_funded it = 0 \<and>
            gt_zero (Number (x_amount data)) \<and> p_amount c = Number (x_amount data) \<and>
            x_name data = Some (p_name c) \<and> p_name c \<noteq> [])"
proof -
  from assms obtain m data it where
    parsed: "jsonMatch raw = Some m" "p m = Some data" "x_action data = Some ''contribute''"
    and found: "find (\<lambda>i. Num (of_int (i_id i)) = Number (x_item_id data)) its = Some it"
    and valid: "x_name data \<noteq> None" "x_name data \<noteq> Some []"
      "gt_zero (Number (x_amount data))" "is_funded it = 0"
    and c: "c = \<lparr>p_item_id = i_id it, p_item_title = title it,
                 p_name = str_or_empty (x_name data), p_amount = Number (x_amount data),
                 p_message = str_or_empty (x_message data)\<rparr>"
    and xp: "xp = None"
    by (auto simp: extract_pending_def surface_pending_def split: option.splits if_splits)
  from find_picks [OF found] have "it \<in> set its"
    "Number (x_item_id data) = Num (of_int (i_id it))"
    by simp_all
  moreover from valid(1,2) c have "x_name data = Some (p_name c)" "p_name c \<noteq> []"
    by (auto simp: str_or_empty_def)
  ultimately show ?thesis
    using parsed valid(3,4) c xp by auto
qed

lemma extract_pending_cancellation:
  assumes "extract_pending p its mine raw = (cp, Some x)"
  shows "cp = None \<and>
         (\<exists>m data c. jsonMatch raw = Some m \<and> p m = Some data \<and>
            x_action data = Some ''cancel'' \<and> c \<in> set mine \<and>
            Number (x_contribution_id data) = Num (of_int (c_id c)) \<and>
            p_contribution_id x = c_id c \<and> p_cancel_amount x = amount c)"
proof -
  from assms obtain m data existing where
    parsed: "jsonMatch raw = Some m" "p m = Some data" "x_action data = Some ''cancel''"
    and found: "find (\<lambda>c. Num (of_int (c_id c)) = Number (x_contribution_id data)) mine
                = Some existing"
    and x: "p_contribution_id x = c_id existing" "p_cancel_amount x = amount existing"
    and cp: "cp = None"
    by (auto simp: extract_pending_def surface_pending_def split: option.splits if_splits)
  from find_picks [OF found] have "existing \<in> set mine"
    "Number (x_contribution_id data) = Num (of_int (c_id existing))"
    by simp_all
  then show ?thesis
    using parsed x cp by auto
qed

lemma extract_pending_unparsed:
  assumes "jsonMatch raw = None \<or> (\<exists>m. jsonMatch raw = Some m \<and> p m = None)"
  shows "extract_pending p its mine raw = (None, None)"
  using assms by (auto simp: extract_pending_def)

lemma extract_pending_cong:
  assumes "\<And>m. jsonMatch raw = Some m \<Longrightarrow> p' m = p m"
  shows "extract_pending p' its mine raw = extract_pending p its mine raw"
  using assms by (cases "jsonMatch raw") (simp_all add: extract_pending_def)

lemma handleChat_resolved:
  assumes "isGuest request e \<or> isAdmin request e" and "json request = Some b"
    and "sanitise (b_chat_message b) MAX_MESSAGE_LENGTH \<noteq> []"
  shows "handleChat request e d (Resolves r1) (Resolves r2) p =
         Inr (jsonResponse
                (Chat (trim (strip_markers (case r1 of Some r \<Rightarrow> r | None \<Rightarrow> fallback_reply)))
                   (fst (extract_pending p (items_snapshot d)
                           (my_contributions d (getIP request))
                           (case r2 of Some r \<Rightarrow> r | None \<Rightarrow> ''null'')))
                   (snd (extract_pending p (items_snapshot d)
                           (my_contributions d (getIP request))
                           (case r2 of Some r \<Rightarrow> r | None \<Rightarrow> ''null''))))
                200, d)"
  using assms by (auto simp: handleChat_def Let_def)

lemma handleChat_rejected:
  assumes "isGuest request e \<or> isAdmin request e" and "json request = Some b"
    and "sanitise (b_chat_message b) MAX_MESSAGE_LENGTH \<noteq> []"
  shows "handleChat request e d Rejects a2 p = Inl AiFailed"
    and "handleChat request e d (Resolves r1) Rejects p = Inl AiFailed"
  using assms by (auto simp: handleChat_def Let_def)

lemma fallback_reply_clean: "trim (strip_markers fallback_reply) = fallback_reply"
  by code_simp

section \<open>Every request keeps the schema\<close>

lemma batch_two:
  "batch [s1, s2] d = Some d' \<longleftrightarrow> (\<exists>d1. s1 d = Some d1 \<and> s2 d1 = Some d')"
  by (simp split: option.splits)

lemma schema_ok_create_item:
  assumes "schema_ok d" and "handleCreateItem request e d = Inr (resp, d')"
  shows "schema_ok d'"
  using assms
  by (auto simp: handleCreateItem_def Let_def dest: schema_ok_insert_item
      split: if_splits option.splits)

lemma schema_ok_update_item:
  assumes "schema_ok d" and "handleUpdateItem request e d k = Inr (resp, d')"
  shows "schema_ok d'"
proof (cases "d' = d")
  case True
  with assms(1) show ?thesis by simp
next
  case False
  with assms(2) obtain P f where upd: "update_items P f d = Some d'"
    and ids: "\<forall>i. i_id (f i) = i_id i"
    unfolding handleUpdateItem_def update_item_fields_def Let_def
    by (fastforce split: if_splits option.splits)
  from schema_ok_update_items [OF assms(1) upd] ids show ?thesis
    by simp
qed

lemma schema_ok_create_contribution:
  assumes "schema_ok d" and "handleCreateContribution request e d = Inr (resp, d')"
  shows "schema_ok d'"
proof (cases "d' = d")
  case True
  with assms(1) show ?thesis by simp
next
  case False
  with assms(2) obtain b k name a it where
    "apply_contribution request b d k name a it = Inr (resp, d')"
    by (auto simp: handleCreateContribution_def Let_def
        split: if_splits option.splits jsnum.splits)
  then obtain ap msg ip now nr fl where
    "batch [insert_contribution k name ap msg ip now, update_item_funding nr fl k] d = Some d'"
    unfolding apply_contribution_def Let_def
    by (auto split: option.splits)
  then obtain d1 where ins: "insert_contribution k name ap msg ip now d = Some d1"
    and upd: "update_item_funding nr fl k d1 = Some d'"
    unfolding batch_two by blast
  from schema_ok_update_items [OF schema_ok_insert_contribution [OF assms(1) ins]]
    upd show ?thesis
    unfolding update_item_funding_def by simp
qed

lemma schema_ok_cancel:
  assumes "schema_ok d" and "delete_contribution k d = Some d1"
    and "release_item_funding a j d1 = Some d'"
  shows "schema_ok d'"
proof -
  from assms(1,2) have "schema_ok d1"
    by (auto simp: delete_contribution_def intro: schema_ok_without_contribution)
  from schema_ok_update_items [OF this] assms(3) show ?thesis
    unfolding release_item_funding_def by simp
qed

lemma schema_ok_delete_my_contribution:
  assumes "schema_ok d" and "handleDeleteMyContribution request e d k = Inr (resp, d')"
  shows "schema_ok d'"
  using assms
  by (auto simp: handleDeleteMyContribution_def Let_def dest: schema_ok_cancel
      split: if_splits option.splits)

lemma schema_ok_admin_delete_contribution:
  assumes "schema_ok d" and "handleAdminDeleteContribution request e d k = Inr (resp, d')"
  shows "schema_ok d'"
  using assms
  by (auto simp: handleAdminDeleteContribution_def dest: schema_ok_cancel
      split: if_splits option.splits)

lemma schema_ok_chat:
  assumes "schema_ok d" and "handleChat request e d a1 a2 p = Inr (resp, d')"
  shows "schema_ok d'"
  using assms
  by (auto simp: handleChat_def Let_def split: if_splits option.splits ai_outcome.splits)

lemma schema_ok_auth:
  assumes "schema_ok d"
  shows "handleAdminAuth request e d = Inr (resp, d') \<Longrightarrow> schema_ok d'"
    and "handleGuestAuth request e d = Inr (resp, d') \<Longrightarrow> schema_ok d'"
  using assms
  by (auto simp: handleAdminAuth_def handleGuestAuth_def Let_def schema_ok_counts
      split: if_splits option.splits)

lemma schema_ok_empty: "schema_ok db_empty"
  by (simp add: schema_ok_def db_empty_def)

lemma fetch_keeps_schema:
  assumes "schema_ok d"
  shows "schema_ok (snd (fetch e p d c))"
proof (cases "dispatch e p d c")
  case (Inl err)
  with assms show ?thesis by (simp add: fetch_def)
next
  case (Inr r)
  obtain resp d' where r: "r = (resp, d')" by (cases r)
  have "schema_ok d'"
    using Inr assms unfolding r
    by (cases c)
      (auto dest: schema_ok_create_item schema_ok_update_item schema_ok_create_contribution
        schema_ok_delete_my_contribution schema_ok_admin_delete_contribution schema_ok_chat
        schema_ok_auth)
  with Inr r show ?thesis by (simp add: fetch_def)
qed

lemma serve_keeps_schema: "schema_ok d \<Longrightarrow> schema_ok (serve e p d cs)"
  by (induction cs arbitrary: d) (simp_all add: fetch_keeps_schema)

section \<open>The funding ledger\<close>

text \<open>
  C1. \<open>handleCreateContribution\<close> answers 400 for an item whose \<open>is_funded\<close> is 1 and clips
  the amount of every other request to \<open>price_total - price_raised\<close>. It has no case for an
  item whose \<open>is_funded\<close> is 0 while \<open>price_raised\<close> is not below \<open>price_total\<close>: there
  the clipped amount is not above zero, the CHECK \<open>amount > 0\<close> of the schema rejects the
  insert, the batch writes nothing and \<open>fetch\<close> answers 500, where the claim has a
  contribution row, an updated item and the triple of \<open>applied_amount\<close>, \<open>new_raised\<close> and
  \<open>is_funded\<close>. Two such items:
  \<^item> the item that \<open>POST /api/items\<close> creates with a target of zero;
  \<^item> an item over its target (\<open>PUT /api/items/:id\<close> may lower \<open>price_total\<close>), once the
    admin has cancelled one of its contributions, which sets \<open>is_funded\<close> to 0 and here
    leaves \<open>price_raised\<close> above \<open>price_total\<close>.

  On the example of the specification, 80 raised of 100 and a pledge of 50, the handler
  answers 201 with 20 applied, 100 raised and funded, and writes the row of 20.
\<close>

theorem contribution_with_nothing_left_is_answered_500:
  "handleCreateContribution (guest_from ''203.0.113.7'' (Some pledge50)) env0 db_crib =
     Inr (jsonResponse (Applied 20 100 True) 201, db_crib_funded)
   \<and> handleCreateItem (admin_from ''198.51.100.1'' (Some free_gift_body)) env0 db_empty =
       Inr (jsonResponse (Created 1) 201, db_free_gift)
   \<and> select_item db_free_gift 1 = Some free_gift
   \<and> is_funded free_gift = 0 \<and> price_total free_gift = 0 \<and> price_raised free_gift = 0
   \<and> handleCreateContribution (guest_from ''203.0.113.7'' (Some pledge50)) env0 db_free_gift =
       Inl SqlConstraint
   \<and> fetch env0 (\<lambda>s. None) db_free_gift
        (PostContributions (guest_from ''203.0.113.7'' (Some pledge50))) =
       (jsonResponse (Error ''Internal Server Error'') 500, db_free_gift)
   \<and> handleAdminDeleteContribution (admin_from ''198.51.100.1'' (None :: unit option)) env0
        db_two 1 =
       Inr (jsonResponse Success 200, db_overfull)
   \<and> select_item db_overfull 1 = Some (bassinet\<lparr>price_raised := 70, is_funded := 0\<rparr>)
   \<and> price_total bassinet = 50
   \<and> handleCreateContribution (guest_from ''203.0.113.7'' (Some pledge50)) env0 db_overfull =
       Inl SqlConstraint
   \<and> fetch env0 (\<lambda>s. None) db_overfull
        (PostContributions (guest_from ''203.0.113.7'' (Some pledge50))) =
       (jsonResponse (Error ''Internal Server Error'') 500, db_overfull)"
proof -
  let ?pledge = "guest_from ''203.0.113.7'' (Some pledge50)"
  have example: "handleCreateContribution ?pledge env0 db_crib =
      Inr (jsonResponse (Applied 20 100 True) 201, db_crib_funded)"
    by code_simp
  have created:
    "handleCreateItem (admin_from ''198.51.100.1'' (Some free_gift_body)) env0 db_empty =
       Inr (jsonResponse (Created 1) 201, db_free_gift)"
    by code_simp
  have gift: "select_item db_free_gift 1 = Some free_gift"
    "is_funded free_gift = 0" "price_total free_gift = 0" "price_raised free_gift = 0"
    by (simp_all add: select_item_def db_free_gift_def free_gift_def)
  have gift_rejected: "handleCreateContribution ?pledge env0 db_free_gift = Inl SqlConstraint"
    by code_simp
  have gift_500: "fetch env0 (\<lambda>s. None) db_free_gift (PostContributions ?pledge) =
      (jsonResponse (Error ''Internal Server Error'') 500, db_free_gift)"
    using gift_rejected by (simp add: fetch_def)
  have cancelled:
    "handleAdminDeleteContribution (admin_from ''198.51.100.1'' (None :: unit option)) env0
       db_two 1 = Inr (jsonResponse Success 200, db_overfull)"
    by code_simp
  have over: "select_item db_overfull 1 = Some (bassinet\<lparr>price_raised := 70, is_funded := 0\<rparr>)"
    "price_total bassinet = 50"
    by (simp_all add: select_item_def db_overfull_def bassinet_def pram_def)
  have over_rejected: "handleCreateContribution ?pledge env0 db_overfull = Inl SqlConstraint"
    by code_simp
  have over_500: "fetch env0 (\<lambda>s. None) db_overfull (PostContributions ?pledge) =
      (jsonResponse (Error ''Internal Server Error'') 500, db_overfull)"
    using over_rejected by (simp add: fetch_def)
  from example created gift gift_rejected gift_500 cancelled over over_rejected over_500
  show ?thesis
    by blast
qed

text \<open>
  C2. In a store that satisfies its schema, cancelling a contribution \<open>c\<close> that was found,
  on the owner's route (an authorised caller whose address is the stored one) and on the
  admin's route alike, answers 200; one batch deletes the row and sets the
  \<open>price_raised\<close> of its item to \<open>max 0 (price_raised - amount)\<close>, which is never negative,
  and its \<open>is_funded\<close> to 0 whatever the target is. No other item changes.
\<close>

theorem cancellation_floors_and_unfunds:
  assumes "schema_ok d"
    and "select_item d (item_id c) = Some it"
    and "d' = d\<lparr>contributions := filter (\<lambda>x. c_id x \<noteq> k) (contributions d),
                 items := map (\<lambda>i. if i_id i = item_id c
                                    then i\<lparr>price_raised := max 0 (price_raised i - amount c),
                                           is_funded := 0\<rparr>
                                    else i) (items d)\<rparr>"
  shows "((isGuest owner e \<or> isAdmin owner e) \<and>
          select_own_contribution d k (getIP owner) = Some c \<longrightarrow>
            handleDeleteMyContribution owner e d k = Inr (jsonResponse Success 200, d'))
       \<and> (isAdmin admin e \<and> select_contribution d k = Some c \<longrightarrow>
            handleAdminDeleteContribution admin e d k = Inr (jsonResponse Success 200, d'))
       \<and> select_contribution d' k = None
       \<and> select_item d' (item_id c) =
            Some (it\<lparr>price_raised := max 0 (price_raised it - amount c), is_funded := 0\<rparr>)
       \<and> 0 \<le> max 0 (price_raised it - amount c)
       \<and> (\<forall>j. j \<noteq> item_id c \<longrightarrow> select_item d' j = select_item d j)"
proof (intro conjI impI allI)
  assume "(isGuest owner e \<or> isAdmin owner e) \<and>
          select_own_contribution d k (getIP owner) = Some c"
  then show "handleDeleteMyContribution owner e d k = Inr (jsonResponse Success 200, d')"
    using owner_cancel_effect [of owner e d k c] assms(1,3) by simp
next
  assume "isAdmin admin e \<and> select_contribution d k = Some c"
  then show "handleAdminDeleteContribution admin e d k = Inr (jsonResponse Success 200, d')"
    using admin_cancel_effect [of admin e d k c] assms(1,3) by simp
next
  show "select_contribution d' k = None"
    unfolding assms(3) by (rule select_contribution_deleted)
next
  have "select_item d' j =
        (if j = item_id c
         then map_option (\<lambda>i. i\<lparr>price_raised := max 0 (price_raised i - amount c),
                                 is_funded := 0\<rparr>) (select_item d (item_id c))
         else select_item d j)" for j
    using select_item_updated
      [where f = "\<lambda>i. i\<lparr>price_raised := max 0 (price_raised i - amount c), is_funded := 0\<rparr>"
         and d = "d\<lparr>contributions := filter (\<lambda>x. c_id x \<noteq> k) (contributions d)\<rparr>"
         and k = "item_id c" and j = j]
    by (simp add: assms(3) select_item_def)
  then show "select_item d' (item_id c) =
            Some (it\<lparr>price_raised := max 0 (price_raised it - amount c), is_funded := 0\<rparr>)"
    and "\<And>j. j \<noteq> item_id c \<Longrightarrow> select_item d' j = select_item d j"
    using assms(2) by simp_all
next
  show "0 \<le> max 0 (price_raised it - amount c)"
    by simp
qed

text \<open>
  The owner cancels 150 against 100 raised: 0 is left. The admin cancels 30 against 100
  raised on a target of 50: 70 is left, still above the target, and \<open>is_funded\<close> is 0.
\<close>

theorem cancellation_floors_and_unfunds_witness:
  "handleDeleteMyContribution (guest_from ''203.0.113.7'' (None :: unit option)) env0 db_two 2 =
     Inr (jsonResponse Success 200,
          db_two\<lparr>contributions := [bea_row],
                 items := [bassinet, pram\<lparr>price_raised := 0, is_funded := 0\<rparr>]\<rparr>)
   \<and> handleAdminDeleteContribution (admin_from ''198.51.100.1'' (None :: unit option)) env0
        db_two 1 =
     Inr (jsonResponse Success 200,
          db_two\<lparr>contributions := [carl_row],
                 items := [bassinet\<lparr>price_raised := 70, is_funded := 0\<rparr>, pram]\<rparr>)
   \<and> price_total bassinet \<le> (70 :: real)"
proof -
  let ?owner = "guest_from ''203.0.113.7'' (None :: unit option)"
  let ?admin = "admin_from ''198.51.100.1'' (None :: unit option)"
  have ok: "schema_ok db_two"
    by (simp add: schema_ok_def db_two_def bassinet_def pram_def bea_row_def carl_row_def
        item_checks_def contribution_checks_def)
  have item2: "select_item db_two (item_id carl_row) = Some pram"
    and item1: "select_item db_two (item_id bea_row) = Some bassinet"
    by (simp_all add: select_item_def db_two_def bassinet_def pram_def bea_row_def carl_row_def)
  have own: "(isGuest ?owner env0 \<or> isAdmin ?owner env0) \<and>
             select_own_contribution db_two 2 (getIP ?owner) = Some carl_row"
    by (simp add: isGuest_def guest_from_def env0_def select_own_contribution_def getIP_def
        db_two_def bea_row_def carl_row_def)
  have adm: "isAdmin ?admin env0 \<and> select_contribution db_two 1 = Some bea_row"
    by (simp add: isAdmin_def admin_from_def env0_def select_contribution_def db_two_def
        bea_row_def)
  have after_owner:
    "db_two\<lparr>contributions := filter (\<lambda>x. c_id x \<noteq> 2) (contributions db_two),
            items := map (\<lambda>i. if i_id i = item_id carl_row
                               then i\<lparr>price_raised := max 0 (price_raised i - amount carl_row),
                                      is_funded := 0\<rparr>
                               else i) (items db_two)\<rparr>
     = db_two\<lparr>contributions := [bea_row],
              items := [bassinet, pram\<lparr>price_raised := 0, is_funded := 0\<rparr>]\<rparr>"
    by (simp add: db_two_def bassinet_def pram_def bea_row_def carl_row_def)
  have after_admin:
    "db_two\<lparr>contributions := filter (\<lambda>x. c_id x \<noteq> 1) (contributions db_two),
            items := map (\<lambda>i. if i_id i = item_id bea_row
                               then i\<lparr>price_raised := max 0 (price_raised i - amount bea_row),
                                      is_funded := 0\<rparr>
                               else i) (items db_two)\<rparr>
     = db_two\<lparr>contributions := [carl_row],
              items := [bassinet\<lparr>price_raised := 70, is_funded := 0\<rparr>, pram]\<rparr>"
    by (simp add: db_two_def bassinet_def pram_def bea_row_def carl_row_def)
  show ?thesis
    using cancellation_floors_and_unfunds [OF ok item2 after_owner [symmetric],
        of ?owner env0 ?admin]
      cancellation_floors_and_unfunds [OF ok item1 after_admin [symmetric],
        of ?owner env0 ?admin]
      own adm
    by (simp add: bassinet_def)
qed

text \<open>
  C3. For an authorised, well-formed contribution request: when no item has the identifier
  the handler answers 404, and when the item's \<open>is_funded\<close> is 1 it answers 409; in both
  cases the store it returns is the store it was given.
\<close>

theorem contribution_refused_without_change:
  assumes "isGuest request e \<or> isAdmin request e"
    and "json request = Some b"
    and "b_item_id b = Some k" and "k \<noteq> 0"
    and "sanitise (b_contributor_name b) MAX_NAME_LENGTH \<noteq> []"
    and "b_amount b = Some (Num a)" and "0 < a"
  shows "(select_item d k = None \<longrightarrow>
            handleCreateContribution request e d =
              Inr (jsonResponse (Error ''Item not found'') 404, d))
       \<and> (select_item d k = Some it \<and> is_funded it = 1 \<longrightarrow>
            handleCreateContribution request e d =
              Inr (jsonResponse (Error ''This item is already fully funded'') 409, d))"
  using assms by (auto simp: handleCreateContribution_def Let_def)

theorem contribution_refused_without_change_witness:
  "handleCreateContribution
     (guest_from ''203.0.113.7'' (Some (pledge50\<lparr>b_item_id := Some 99\<rparr>))) env0 db_crib_funded =
     Inr (jsonResponse (Error ''Item not found'') 404, db_crib_funded)
   \<and> handleCreateContribution (guest_from ''203.0.113.7'' (Some pledge50)) env0 db_crib_funded =
     Inr (jsonResponse (Error ''This item is already fully funded'') 409, db_crib_funded)"
proof -
  have name: "sanitise (Some ''Ana'') MAX_NAME_LENGTH = ''Ana''"
    by (simp add: sanitise_def trim_def js_space_def control_char_def MAX_NAME_LENGTH_def)
  have auth: "isGuest (guest_from ''203.0.113.7'' x) env0 \<or> isAdmin (guest_from ''203.0.113.7'' x) env0"
    for x :: "contribution_body option"
    by (simp add: isGuest_def guest_from_def env0_def)
  have absent: "select_item db_crib_funded 99 = None"
    and funded: "select_item db_crib_funded 1 = Some (crib\<lparr>price_raised := 100, is_funded := 1\<rparr>)
                 \<and> is_funded (crib\<lparr>price_raised := 100, is_funded := 1\<rparr>) = 1"
    by (simp_all add: select_item_def db_crib_funded_def crib_def)
  have first: "handleCreateContribution
     (guest_from ''203.0.113.7'' (Some (pledge50\<lparr>b_item_id := Some 99\<rparr>))) env0 db_crib_funded =
     Inr (jsonResponse (Error ''Item not found'') 404, db_crib_funded)"
    using contribution_refused_without_change
      [of "guest_from ''203.0.113.7'' (Some (pledge50\<lparr>b_item_id := Some 99\<rparr>))" env0
          "pledge50\<lparr>b_item_id := Some 99\<rparr>" 99 50 db_crib_funded]
      auth absent
    by (simp add: guest_from_def pledge50_def name)
  have second: "handleCreateContribution (guest_from ''203.0.113.7'' (Some pledge50)) env0
       db_crib_funded =
     Inr (jsonResponse (Error ''This item is already fully funded'') 409, db_crib_funded)"
    using contribution_refused_without_change
      [of "guest_from ''203.0.113.7'' (Some pledge50)" env0 pledge50 1 50 db_crib_funded
          "crib\<lparr>price_raised := 100, is_funded := 1\<rparr>"]
      auth funded
    by (simp add: guest_from_def pledge50_def name)
  from first second show ?thesis by simp
qed

section \<open>The access guard\<close>

text \<open>
  C4. For \<open>POST /api/admin/auth\<close> and \<open>POST /api/guest/auth\<close>, with \<open>ip\<close> the caller's
  address and \<open>day\<close> the UTC day of the request, the counter being the one of
  \<open>admin:ip\<close> or \<open>guest:ip\<close> on that day: at ten or more the answer is 429 and nothing is
  written, whatever the body holds, the right password included; below ten, the right
  password is answered 200 and the counter's row is deleted, and any other password is
  answered 401 and the counter is one higher. After ten wrong passwords in a row from the
  address on the day, the next request is answered 429.
\<close>

theorem login_attempts_are_limited:
  assumes "ip = (case cf_connecting_ip request of Some a \<Rightarrow> a | None \<Rightarrow> ''unknown'')"
    and "day = take 10 (now_iso request)"
  shows "(10 \<le> attempts_of d (''admin:'' @ ip) day \<longrightarrow>
            handleAdminAuth request e d =
              Inr (jsonResponse (Error ''Too many attempts. Try again tomorrow.'') 429, d))
       \<and> (attempts_of d (''admin:'' @ ip) day < 10 \<and> json request = Some b \<and>
          b_password b = Some (ADMIN_PASSWORD e) \<longrightarrow>
            (\<exists>d'. handleAdminAuth request e d = Inr (jsonResponse Success 200, d') \<and>
                   select_count d' (''admin:'' @ ip) day = None))
       \<and> (attempts_of d (''admin:'' @ ip) day < 10 \<and> json request = Some b \<and>
          b_password b \<noteq> Some (ADMIN_PASSWORD e) \<longrightarrow>
            (\<exists>d'. handleAdminAuth request e d =
                     Inr (jsonResponse (Error ''Incorrect password'') 401, d') \<and>
                   attempts_of d' (''admin:'' @ ip) day =
                     attempts_of d (''admin:'' @ ip) day + 1))
       \<and> (length wrong = 10 \<and>
          (\<forall>r \<in> set wrong. cf_connecting_ip r = cf_connecting_ip request \<and>
             take 10 (now_iso r) = day \<and>
             (\<exists>w. json r = Some w \<and> b_password w \<noteq> Some (ADMIN_PASSWORD e))) \<longrightarrow>
            handleAdminAuth request e (serve e p d (map PostAdminAuth wrong)) =
              Inr (jsonResponse (Error ''Too many attempts. Try again tomorrow.'') 429,
                   serve e p d (map PostAdminAuth wrong)))
       \<and> (10 \<le> attempts_of d (''guest:'' @ ip) day \<longrightarrow>
            handleGuestAuth request e d =
              Inr (jsonResponse (Error ''Too many attempts. Try again tomorrow.'') 429, d))
       \<and> (attempts_of d (''guest:'' @ ip) day < 10 \<and> json request = Some b \<and>
          b_password b = Some (GUEST_PASSWORD e) \<longrightarrow>
            (\<exists>d'. handleGuestAuth request e d = Inr (jsonResponse Success 200, d') \<and>
                   select_count d' (''guest:'' @ ip) day = None))
       \<and> (attempts_of d (''guest:'' @ ip) day < 10 \<and> json request = Some b \<and>
          b_password b \<noteq> Some (GUEST_PASSWORD e) \<longrightarrow>
            (\<exists>d'. handleGuestAuth request e d =
                     Inr (jsonResponse (Error ''Palavra-passe incorreta'') 401, d') \<and>
                   attempts_of d' (''guest:'' @ ip) day =
                     attempts_of d (''guest:'' @ ip) day + 1))
       \<and> (length wrong = 10 \<and>
          (\<forall>r \<in> set wrong. cf_connecting_ip r = cf_connecting_ip request \<and>
             take 10 (now_iso r) = day \<and>
             (\<exists>w. json r = Some w \<and> b_password w \<noteq> Some (GUEST_PASSWORD e))) \<longrightarrow>
            handleGuestAuth request e (serve e p d (map PostGuestAuth wrong)) =
              Inr (jsonResponse (Error ''Too many attempts. Try again tomorrow.'') 429,
                   serve e p d (map PostGuestAuth wrong)))"
proof -
  have admin_full: "10 \<le> attempts_of d (''admin:'' @ ip) day \<longrightarrow>
            handleAdminAuth request e d =
              Inr (jsonResponse (Error ''Too many attempts. Try again tomorrow.'') 429, d)"
    using admin_auth_limited [of d request e] by (simp add: assms)
  have admin_right: "attempts_of d (''admin:'' @ ip) day < 10 \<and> json request = Some b \<and>
          b_password b = Some (ADMIN_PASSWORD e) \<longrightarrow>
            (\<exists>d'. handleAdminAuth request e d = Inr (jsonResponse Success 200, d') \<and>
                   select_count d' (''admin:'' @ ip) day = None)"
    using admin_auth_open [of d request b e] by (auto simp: assms count_after_delete)
  have admin_wrong: "attempts_of d (''admin:'' @ ip) day < 10 \<and> json request = Some b \<and>
          b_password b \<noteq> Some (ADMIN_PASSWORD e) \<longrightarrow>
            (\<exists>d'. handleAdminAuth request e d =
                     Inr (jsonResponse (Error ''Incorrect password'') 401, d') \<and>
                   attempts_of d' (''admin:'' @ ip) day =
                     attempts_of d (''admin:'' @ ip) day + 1)"
    using admin_auth_open [of d request b e] by (auto simp: assms attempts_after_bump)
  have admin_eleventh: "length wrong = 10 \<and>
          (\<forall>r \<in> set wrong. cf_connecting_ip r = cf_connecting_ip request \<and>
             take 10 (now_iso r) = day \<and>
             (\<exists>w. json r = Some w \<and> b_password w \<noteq> Some (ADMIN_PASSWORD e))) \<longrightarrow>
            handleAdminAuth request e (serve e p d (map PostAdminAuth wrong)) =
              Inr (jsonResponse (Error ''Too many attempts. Try again tomorrow.'') 429,
                   serve e p d (map PostAdminAuth wrong))"
  proof
    assume run: "length wrong = 10 \<and>
          (\<forall>r \<in> set wrong. cf_connecting_ip r = cf_connecting_ip request \<and>
             take 10 (now_iso r) = day \<and>
             (\<exists>w. json r = Some w \<and> b_password w \<noteq> Some (ADMIN_PASSWORD e)))"
    then have "min 10 (attempts_of d (''admin:'' @ ip) day + length wrong)
         \<le> attempts_of (serve e p d (map PostAdminAuth wrong)) (''admin:'' @ ip) day"
      unfolding assms(1)
      by (intro admin_wrong_passwords_count) simp
    with run have "10 \<le> attempts_of (serve e p d (map PostAdminAuth wrong)) (''admin:'' @ ip) day"
      by simp
    then show "handleAdminAuth request e (serve e p d (map PostAdminAuth wrong)) =
              Inr (jsonResponse (Error ''Too many attempts. Try again tomorrow.'') 429,
                   serve e p d (map PostAdminAuth wrong))"
      using admin_auth_limited [of "serve e p d (map PostAdminAuth wrong)" request e]
      by (simp add: assms)
  qed
  have guest_full: "10 \<le> attempts_of d (''guest:'' @ ip) day \<longrightarrow>
            handleGuestAuth request e d =
              Inr (jsonResponse (Error ''Too many attempts. Try again tomorrow.'') 429, d)"
    using guest_auth_limited [of d request e] by (simp add: assms)
  have guest_right: "attempts_of d (''guest:'' @ ip) day < 10 \<and> json request = Some b \<and>
          b_password b = Some (GUEST_PASSWORD e) \<longrightarrow>
            (\<exists>d'. handleGuestAuth request e d = Inr (jsonResponse Success 200, d') \<and>
                   select_count d' (''guest:'' @ ip) day = None)"
    using guest_auth_open [of d request b e] by (auto simp: assms count_after_delete)
  have guest_wrong: "attempts_of d (''guest:'' @ ip) day < 10 \<and> json request = Some b \<and>
          b_password b \<noteq> Some (GUEST_PASSWORD e) \<longrightarrow>
            (\<exists>d'. handleGuestAuth request e d =
                     Inr (jsonResponse (Error ''Palavra-passe incorreta'') 401, d') \<and>
                   attempts_of d' (''guest:'' @ ip) day =
                     attempts_of d (''guest:'' @ ip) day + 1)"
    using guest_auth_open [of d request b e] by (auto simp: assms attempts_after_bump)
  have guest_eleventh: "length wrong = 10 \<and>
          (\<forall>r \<in> set wrong. cf_connecting_ip r = cf_connecting_ip request \<and>
             take 10 (now_iso r) = day \<and>
             (\<exists>w. json r = Some w \<and> b_password w \<noteq> Some (GUEST_PASSWORD e))) \<longrightarrow>
            handleGuestAuth request e (serve e p d (map PostGuestAuth wrong)) =
              Inr (jsonResponse (Error ''Too many attempts. Try again tomorrow.'') 429,
                   serve e p d (map PostGuestAuth wrong))"
  proof
    assume run: "length wrong = 10 \<and>
          (\<forall>r \<in> set wrong. cf_connecting_ip r = cf_connecting_ip request \<and>
             take 10 (now_iso r) = day \<and>
             (\<exists>w. json r = Some w \<and> b_password w \<noteq> Some (GUEST_PASSWORD e)))"
    then have "min 10 (attempts_of d (''guest:'' @ ip) day + length wrong)
         \<le> attempts_of (serve e p d (map PostGuestAuth wrong)) (''guest:'' @ ip) day"
      unfolding assms(1)
      by (intro guest_wrong_passwords_count) simp
    with run have "10 \<le> attempts_of (serve e p d (map PostGuestAuth wrong)) (''guest:'' @ ip) day"
      by simp
    then show "handleGuestAuth request e (serve e p d (map PostGuestAuth wrong)) =
              Inr (jsonResponse (Error ''Too many attempts. Try again tomorrow.'') 429,
                   serve e p d (map PostGuestAuth wrong))"
      using guest_auth_limited [of "serve e p d (map PostGuestAuth wrong)" request e]
      by (simp add: assms)
  qed
  from admin_full admin_right admin_wrong admin_eleventh
    guest_full guest_right guest_wrong guest_eleventh
  show ?thesis by blast
qed

text \<open>
  One address on 2026-04-11. With ten attempts on record the right password is answered
  429; with three, the right password clears the counter and a wrong one makes it four;
  and ten wrong passwords on an empty table lock the eleventh request out, right password
  or not.
\<close>

theorem login_attempts_are_limited_witness:
  "handleAdminAuth (try_password ''admin-secret'') env0 db_ten_tries =
     Inr (jsonResponse (Error ''Too many attempts. Try again tomorrow.'') 429, db_ten_tries)
   \<and> (\<exists>d'. handleAdminAuth (try_password ''admin-secret'') env0 db_three_tries =
              Inr (jsonResponse Success 200, d') \<and>
            select_count d' ''admin:203.0.113.7'' ''2026-04-11'' = None)
   \<and> (\<exists>d'. handleAdminAuth (try_password ''letmein'') env0 db_three_tries =
              Inr (jsonResponse (Error ''Incorrect password'') 401, d') \<and>
            attempts_of d' ''admin:203.0.113.7'' ''2026-04-11'' = 4)
   \<and> handleAdminAuth (try_password ''admin-secret'') env0
       (serve env0 (\<lambda>s. None) db_empty
          (map PostAdminAuth (replicate 10 (try_password ''letmein'')))) =
     Inr (jsonResponse (Error ''Too many attempts. Try again tomorrow.'') 429,
          serve env0 (\<lambda>s. None) db_empty
            (map PostAdminAuth (replicate 10 (try_password ''letmein''))))
   \<and> handleGuestAuth (try_password ''guest-secret'') env0 db_ten_tries =
     Inr (jsonResponse (Error ''Too many attempts. Try again tomorrow.'') 429, db_ten_tries)
   \<and> (\<exists>d'. handleGuestAuth (try_password ''guest-secret'') env0 db_three_tries =
              Inr (jsonResponse Success 200, d') \<and>
            select_count d' ''guest:203.0.113.7'' ''2026-04-11'' = None)
   \<and> (\<exists>d'. handleGuestAuth (try_password ''letmein'') env0 db_three_tries =
              Inr (jsonResponse (Error ''Palavra-passe incorreta'') 401, d') \<and>
            attempts_of d' ''guest:203.0.113.7'' ''2026-04-11'' = 4)
   \<and> handleGuestAuth (try_password ''guest-secret'') env0
       (serve env0 (\<lambda>s. None) db_empty
          (map PostGuestAuth (replicate 10 (try_password ''letmein'')))) =
     Inr (jsonResponse (Error ''Too many attempts. Try again tomorrow.'') 429,
          serve env0 (\<lambda>s. None) db_empty
            (map PostGuestAuth (replicate 10 (try_password ''letmein''))))"
proof -
  have ip: "''203.0.113.7'' =
            (case cf_connecting_ip (try_password pw) of Some a \<Rightarrow> a | None \<Rightarrow> ''unknown'')"
    and day: "''2026-04-11'' = take 10 (now_iso (try_password pw))"
    and body: "json (try_password pw) = Some \<lparr>b_password = Some pw\<rparr>"
    for pw
    by (simp_all add: try_password_def anyone_from_def)
  have ten: "attempts_of db_ten_tries ''admin:203.0.113.7'' ''2026-04-11'' = 10"
    "attempts_of db_ten_tries ''guest:203.0.113.7'' ''2026-04-11'' = 10"
    and three: "attempts_of db_three_tries ''admin:203.0.113.7'' ''2026-04-11'' = 3"
    "attempts_of db_three_tries ''guest:203.0.113.7'' ''2026-04-11'' = 3"
    by (simp_all add: attempts_of_def select_count_def db_ten_tries_def db_three_tries_def
        db_empty_def)
  have run: "length (replicate 10 (try_password ''letmein'')) = 10"
    "\<forall>r \<in> set (replicate 10 (try_password ''letmein'')).
       cf_connecting_ip r = cf_connecting_ip (try_password pw) \<and>
       take 10 (now_iso r) = ''2026-04-11'' \<and>
       (\<exists>w. json r = Some w \<and> b_password w \<noteq> Some (ADMIN_PASSWORD env0))"
    "\<forall>r \<in> set (replicate 10 (try_password ''letmein'')).
       cf_connecting_ip r = cf_connecting_ip (try_password pw) \<and>
       take 10 (now_iso r) = ''2026-04-11'' \<and>
       (\<exists>w. json r = Some w \<and> b_password w \<noteq> Some (GUEST_PASSWORD env0))"
    for pw
    by (simp_all add: try_password_def anyone_from_def env0_def)
  note locked = login_attempts_are_limited
    [OF ip day, where pw1 = "''admin-secret''" and d = db_ten_tries and e = env0]
  note locked_guest = login_attempts_are_limited
    [OF ip day, where pw1 = "''guest-secret''" and d = db_ten_tries and e = env0]
  note right_admin = login_attempts_are_limited
    [OF ip day, where pw1 = "''admin-secret''" and d = db_three_tries and e = env0
       and b = "\<lparr>b_password = Some ''admin-secret''\<rparr>"]
  note right_guest = login_attempts_are_limited
    [OF ip day, where pw1 = "''guest-secret''" and d = db_three_tries and e = env0
       and b = "\<lparr>b_password = Some ''guest-secret''\<rparr>"]
  note wrong = login_attempts_are_limited
    [OF ip day, where pw1 = "''letmein''" and d = db_three_tries and e = env0
       and b = "\<lparr>b_password = Some ''letmein''\<rparr>"]
  note eleventh_admin = login_attempts_are_limited
    [OF ip day, where pw1 = "''admin-secret''" and d = db_empty and e = env0
       and wrong = "replicate 10 (try_password ''letmein'')" and p = "\<lambda>s. None"]
  note eleventh_guest = login_attempts_are_limited
    [OF ip day, where pw1 = "''guest-secret''" and d = db_empty and e = env0
       and wrong = "replicate 10 (try_password ''letmein'')" and p = "\<lambda>s. None"]
  have a1: "handleAdminAuth (try_password ''admin-secret'') env0 db_ten_tries =
     Inr (jsonResponse (Error ''Too many attempts. Try again tomorrow.'') 429, db_ten_tries)"
    and g1: "handleGuestAuth (try_password ''guest-secret'') env0 db_ten_tries =
     Inr (jsonResponse (Error ''Too many attempts. Try again tomorrow.'') 429, db_ten_tries)"
    using locked locked_guest ten by simp_all
  have a2: "\<exists>d'. handleAdminAuth (try_password ''admin-secret'') env0 db_three_tries =
              Inr (jsonResponse Success 200, d') \<and>
            select_count d' ''admin:203.0.113.7'' ''2026-04-11'' = None"
    using right_admin three body by (simp add: env0_def)
  have g2: "\<exists>d'. handleGuestAuth (try_password ''guest-secret'') env0 db_three_tries =
              Inr (jsonResponse Success 200, d') \<and>
            select_count d' ''guest:203.0.113.7'' ''2026-04-11'' = None"
    using right_guest three body by (simp add: env0_def)
  have a3: "\<exists>d'. handleAdminAuth (try_password ''letmein'') env0 db_three_tries =
              Inr (jsonResponse (Error ''Incorrect password'') 401, d') \<and>
            attempts_of d' ''admin:203.0.113.7'' ''2026-04-11'' = 4"
    and g3: "\<exists>d'. handleGuestAuth (try_password ''letmein'') env0 db_three_tries =
              Inr (jsonResponse (Error ''Palavra-passe incorreta'') 401, d') \<and>
            attempts_of d' ''guest:203.0.113.7'' ''2026-04-11'' = 4"
    using wrong three body by (simp_all add: env0_def)
  have a4: "handleAdminAuth (try_password ''admin-secret'') env0
       (serve env0 (\<lambda>s. None) db_empty
          (map PostAdminAuth (replicate 10 (try_password ''letmein'')))) =
     Inr (jsonResponse (Error ''Too many attempts. Try again tomorrow.'') 429,
          serve env0 (\<lambda>s. None) db_empty
            (map PostAdminAuth (replicate 10 (try_password ''letmein''))))"
    using eleventh_admin run(1) run(2) [of "''admin-secret''"] by blast
  have g4: "handleGuestAuth (try_password ''guest-secret'') env0
       (serve env0 (\<lambda>s. None) db_empty
          (map PostGuestAuth (replicate 10 (try_password ''letmein'')))) =
     Inr (jsonResponse (Error ''Too many attempts. Try again tomorrow.'') 429,
          serve env0 (\<lambda>s. None) db_empty
            (map PostGuestAuth (replicate 10 (try_password ''letmein''))))"
    using eleventh_guest run(1) run(3) [of "''guest-secret''"] by blast
  from a1 a2 a3 a4 g1 g2 g3 g4 show ?thesis
    by blast
qed

section \<open>The action extraction pipeline\<close>

text \<open>
  C5. In a chat turn of an authorised caller with a message, both model calls resolving,
  the answer is 200 with a reply and the store is untouched. A contribution is pending
  only if the parsed object has the action \<open>contribute\<close>, its item identifier is that of an
  item of the registry whose \<open>is_funded\<close> is 0, its amount is above zero and its name is
  not empty; a cancellation is pending only if the parsed object has the action \<open>cancel\<close>
  and its identifier is that of a contribution stored under the caller's address. A
  proposal that fails its checks leaves both pending actions empty, in the same 200.
\<close>

theorem pending_actions_are_validated:
  assumes "isGuest request e \<or> isAdmin request e" and "json request = Some b"
    and "sanitise (b_chat_message b) MAX_MESSAGE_LENGTH \<noteq> []"
    and "raw = (case r2 of Some r \<Rightarrow> r | None \<Rightarrow> ''null'')"
  shows "\<exists>reply cp xp.
           handleChat request e d (Resolves r1) (Resolves r2) p =
             Inr (jsonResponse (Chat reply cp xp) 200, d)
         \<and> (\<forall>c. cp = Some c \<longrightarrow> xp = None \<and>
               (\<exists>m data it. jsonMatch raw = Some m \<and> p m = Some data \<and>
                  x_action data = Some ''contribute'' \<and> it \<in> set (items d) \<and>
                  Number (x_item_id data) = Num (of_int (i_id it)) \<and>
                  p_item_id c = i_id it \<and> is_funded it = 0 \<and>
                  gt_zero (Number (x_amount data)) \<and> p_amount c = Number (x_amount data) \<and>
                  x_name data = Some (p_name c) \<and> p_name c \<noteq> []))
         \<and> (\<forall>x. xp = Some x \<longrightarrow> cp = None \<and>
               (\<exists>m data c. jsonMatch raw = Some m \<and> p m = Some data \<and>
                  x_action data = Some ''cancel'' \<and> c \<in> set (contributions d) \<and>
                  contributor_ip c = Some (getIP request) \<and>
                  Number (x_contribution_id data) = Num (of_int (c_id c)) \<and>
                  p_contribution_id x = c_id c \<and> p_cancel_amount x = amount c))
         \<and> (\<forall>m data. jsonMatch raw = Some m \<and> p m = Some data \<and>
               x_action data = Some ''contribute'' \<and>
               (\<not> (\<exists>it. it \<in> set (items d) \<and>
                       Number (x_item_id data) = Num (of_int (i_id it)) \<and> is_funded it = 0) \<or>
                \<not> gt_zero (Number (x_amount data)) \<or> x_name data = None \<or>
                x_name data = Some []) \<longrightarrow> cp = None \<and> xp = None)
         \<and> (\<forall>m data. jsonMatch raw = Some m \<and> p m = Some data \<and>
               x_action data = Some ''cancel'' \<and>
               \<not> (\<exists>c. c \<in> set (contributions d) \<and> contributor_ip c = Some (getIP request) \<and>
                      Number (x_contribution_id data) = Num (of_int (c_id c))) \<longrightarrow>
               cp = None \<and> xp = None)"
proof -
  define pending where
    "pending = extract_pending p (items_snapshot d) (my_contributions d (getIP request)) raw"
  have answer: "handleChat request e d (Resolves r1) (Resolves r2) p =
      Inr (jsonResponse
             (Chat (trim (strip_markers (case r1 of Some r \<Rightarrow> r | None \<Rightarrow> fallback_reply)))
                (fst pending) (snd pending)) 200, d)"
    using handleChat_resolved [OF assms(1,2,3)] by (simp add: pending_def assms(4))
  have contribution: "snd pending = None \<and>
               (\<exists>m data it. jsonMatch raw = Some m \<and> p m = Some data \<and>
                  x_action data = Some ''contribute'' \<and> it \<in> set (items d) \<and>
                  Number (x_item_id data) = Num (of_int (i_id it)) \<and>
                  p_item_id c = i_id it \<and> is_funded it = 0 \<and>
                  gt_zero (Number (x_amount data)) \<and> p_amount c = Number (x_amount data) \<and>
                  x_name data = Some (p_name c) \<and> p_name c \<noteq> [])"
    if "fst pending = Some c" for c
  proof -
    from that have "extract_pending p (items_snapshot d) (my_contributions d (getIP request)) raw
                    = (Some c, snd pending)"
      by (simp add: pending_def prod_eq_iff)
    from extract_pending_contribution [OF this] show ?thesis
      by (auto simp: items_snapshot_set)
  qed
  have cancellation: "fst pending = None \<and>
               (\<exists>m data c. jsonMatch raw = Some m \<and> p m = Some data \<and>
                  x_action data = Some ''cancel'' \<and> c \<in> set (contributions d) \<and>
                  contributor_ip c = Some (getIP request) \<and>
                  Number (x_contribution_id data) = Num (of_int (c_id c)) \<and>
                  p_contribution_id x = c_id c \<and> p_cancel_amount x = amount c)"
    if "snd pending = Some x" for x
  proof -
    from that have "extract_pending p (items_snapshot d) (my_contributions d (getIP request)) raw
                    = (fst pending, Some x)"
      by (simp add: pending_def prod_eq_iff)
    from extract_pending_cancellation [OF this] obtain m data c' where
      found: "fst pending = None" "jsonMatch raw = Some m" "p m = Some data"
        "x_action data = Some ''cancel''" "c' \<in> set (my_contributions d (getIP request))"
        "Number (x_contribution_id data) = Num (of_int (c_id c'))"
        "p_contribution_id x = c_id c'" "p_cancel_amount x = amount c'"
      by blast
    from my_contributions_mem [OF found(5)] obtain c where
      "c \<in> set (contributions d)" "contributor_ip c = Some (getIP request)"
      "c_id c' = c_id c" "amount c' = amount c"
      by blast
    with found show ?thesis
      by auto
  qed
  have dropped_contribution: "fst pending = None \<and> snd pending = None"
    if "jsonMatch raw = Some m" "p m = Some data" "x_action data = Some ''contribute''"
      "\<not> (\<exists>it. it \<in> set (items d) \<and>
              Number (x_item_id data) = Num (of_int (i_id it)) \<and> is_funded it = 0) \<or>
       \<not> gt_zero (Number (x_amount data)) \<or> x_name data = None \<or> x_name data = Some []"
    for m data
  proof -
    have "fst pending = None"
    proof (cases "fst pending")
      case (Some c)
      from contribution [OF this] that show ?thesis by auto
    qed simp
    moreover have "snd pending = None"
    proof (cases "snd pending")
      case (Some x)
      from cancellation [OF this] that(1,2,3) show ?thesis by auto
    qed simp
    ultimately show ?thesis by simp
  qed
  have dropped_cancellation: "fst pending = None \<and> snd pending = None"
    if "jsonMatch raw = Some m" "p m = Some data" "x_action data = Some ''cancel''"
      "\<not> (\<exists>c. c \<in> set (contributions d) \<and> contributor_ip c = Some (getIP request) \<and>
              Number (x_contribution_id data) = Num (of_int (c_id c)))"
    for m data
  proof -
    have "fst pending = None"
    proof (cases "fst pending")
      case (Some c)
      from contribution [OF this] that(1,2,3) show ?thesis by auto
    qed simp
    moreover have "snd pending = None"
    proof (cases "snd pending")
      case (Some x)
      from cancellation [OF this] that show ?thesis by auto
    qed simp
    ultimately show ?thesis by simp
  qed
  show ?thesis
    using answer contribution cancellation dropped_contribution dropped_cancellation
    by (intro exI [of _ "trim (strip_markers (case r1 of Some r \<Rightarrow> r | None \<Rightarrow> fallback_reply))"]
        exI [of _ "fst pending"] exI [of _ "snd pending"]) blast
qed

text \<open>
  With the bassinet funded, the pram open, and contribution 2 pledged from 203.0.113.7:
  a proposal for the pram is pending, a proposal for the bassinet is dropped; the caller's
  cancellation of contribution 2 is pending, and the same proposal in a turn from another
  address is dropped.
\<close>

theorem pending_actions_are_validated_witness:
  "handleChat (chat_from ''203.0.113.7'') env0 db_two (Resolves (Some ''Obrigado!''))
     (Resolves (Some (''Claro! '' @ contribute_json))) JSON_parse_sample =
     Inr (jsonResponse
            (Chat ''Obrigado!''
               (Some \<lparr>p_item_id = 2, p_item_title = ''Pram'', p_name = ''Dora'',
                      p_amount = Num 20, p_message = []\<rparr>) None) 200, db_two)
   \<and> (\<exists>it. it \<in> set (items db_two) \<and> i_id it = 2 \<and> is_funded it = 0)
   \<and> handleChat (chat_from ''203.0.113.7'') env0 db_two (Resolves (Some ''Obrigado!''))
       (Resolves (Some contribute_funded_json)) JSON_parse_sample =
     Inr (jsonResponse (Chat ''Obrigado!'' None None) 200, db_two)
   \<and> handleChat (chat_from ''203.0.113.7'') env0 db_two (Resolves (Some ''Obrigado!''))
       (Resolves (Some cancel_json)) JSON_parse_sample =
     Inr (jsonResponse
            (Chat ''Obrigado!'' None
               (Some \<lparr>p_contribution_id = 2, p_cancel_item_title = ''Pram'',
                      p_cancel_amount = 150\<rparr>)) 200, db_two)
   \<and> handleChat (chat_from ''198.51.100.9'') env0 db_two (Resolves (Some ''Obrigado!''))
       (Resolves (Some cancel_json)) JSON_parse_sample =
     Inr (jsonResponse (Chat ''Obrigado!'' None None) 200, db_two)"
proof -
  let ?pend = "\<lparr>p_item_id = 2, p_item_title = ''Pram'', p_name = ''Dora'',
                 p_amount = Num 20, p_message = []\<rparr>"
  have auth: "isGuest (chat_from ''203.0.113.7'') env0 \<or> isAdmin (chat_from ''203.0.113.7'') env0"
    by (simp add: isGuest_def chat_from_def guest_from_def env0_def)
  have body: "json (chat_from ''203.0.113.7'') =
                Some \<lparr>b_chat_message = Some ''Quero contribuir'', b_history = None\<rparr>"
    by (simp add: chat_from_def guest_from_def)
  have message: "sanitise (b_chat_message
                    \<lparr>b_chat_message = Some ''Quero contribuir'', b_history = None\<rparr>)
                   MAX_MESSAGE_LENGTH \<noteq> []"
    by code_simp
  have pram: "handleChat (chat_from ''203.0.113.7'') env0 db_two (Resolves (Some ''Obrigado!''))
     (Resolves (Some (''Claro! '' @ contribute_json))) JSON_parse_sample =
     Inr (jsonResponse (Chat ''Obrigado!'' (Some ?pend) None) 200, db_two)"
    by code_simp
  have bassinet: "handleChat (chat_from ''203.0.113.7'') env0 db_two
       (Resolves (Some ''Obrigado!'')) (Resolves (Some contribute_funded_json))
       JSON_parse_sample =
     Inr (jsonResponse (Chat ''Obrigado!'' None None) 200, db_two)"
    by code_simp
  have own: "handleChat (chat_from ''203.0.113.7'') env0 db_two (Resolves (Some ''Obrigado!''))
       (Resolves (Some cancel_json)) JSON_parse_sample =
     Inr (jsonResponse
            (Chat ''Obrigado!'' None
               (Some \<lparr>p_contribution_id = 2, p_cancel_item_title = ''Pram'',
                      p_cancel_amount = 150\<rparr>)) 200, db_two)"
    by code_simp
  have foreign: "handleChat (chat_from ''198.51.100.9'') env0 db_two
       (Resolves (Some ''Obrigado!'')) (Resolves (Some cancel_json)) JSON_parse_sample =
     Inr (jsonResponse (Chat ''Obrigado!'' None None) 200, db_two)"
    by code_simp
  from pending_actions_are_validated [OF auth body message refl,
      of db_two "Some ''Obrigado!''" "Some (''Claro! '' @ contribute_json)" JSON_parse_sample]
    pram
  have "\<exists>it. it \<in> set (items db_two) \<and> i_id it = 2 \<and> is_funded it = 0"
    by (auto simp: jsonResponse_def)
  with pram bassinet own foreign show ?thesis
    by simp
qed

text \<open>
  C6 (as amended). What the turn hands to the parser is the substring of the extractor's
  output from its first opening brace to the first closing brace after it: there is such
  a match exactly when the output reads \<open>pre { mid } post\<close> with no opening brace in \<open>pre\<close>
  and no closing brace in \<open>mid\<close>, and the match is then \<open>{ mid }\<close>. The turn depends on the
  parser through its value on that match alone. When there is no match (the word \<open>null\<close>
  has none) or the parser throws on it, the turn is answered 200 with both pending actions
  empty.
\<close>

theorem extractor_output_is_matched_lazily:
  assumes "isGuest request e \<or> isAdmin request e" and "json request = Some b"
    and "sanitise (b_chat_message b) MAX_MESSAGE_LENGTH \<noteq> []"
    and "raw = (case r2 of Some r \<Rightarrow> r | None \<Rightarrow> ''null'')"
  shows "(\<forall>m. jsonMatch raw = Some m \<longleftrightarrow>
            (\<exists>pre mid post. raw = pre @ ''{'' @ mid @ ''}'' @ post \<and> CHR ''{'' \<notin> set pre \<and>
               CHR ''}'' \<notin> set mid \<and> m = ''{'' @ mid @ ''}''))
       \<and> (\<forall>p'. (\<forall>m. jsonMatch raw = Some m \<longrightarrow> p' m = p m) \<longrightarrow>
            handleChat request e d (Resolves r1) (Resolves r2) p' =
            handleChat request e d (Resolves r1) (Resolves r2) p)
       \<and> (jsonMatch raw = None \<or> (\<exists>m. jsonMatch raw = Some m \<and> p m = None) \<longrightarrow>
            (\<exists>reply. handleChat request e d (Resolves r1) (Resolves r2) p =
                       Inr (jsonResponse (Chat reply None None) 200, d)))
       \<and> jsonMatch ''null'' = None"
proof (intro conjI allI impI)
  fix m
  show "jsonMatch raw = Some m \<longleftrightarrow>
            (\<exists>pre mid post. raw = pre @ ''{'' @ mid @ ''}'' @ post \<and> CHR ''{'' \<notin> set pre \<and>
               CHR ''}'' \<notin> set mid \<and> m = ''{'' @ mid @ ''}'')"
    by (rule jsonMatch_Some_iff)
next
  fix p'
  assume "\<forall>m. jsonMatch raw = Some m \<longrightarrow> p' m = p m"
  then have "extract_pending p' its mine raw = extract_pending p its mine raw" for its mine
    by (intro extract_pending_cong) simp
  then show "handleChat request e d (Resolves r1) (Resolves r2) p' =
             handleChat request e d (Resolves r1) (Resolves r2) p"
    by (simp add: handleChat_resolved [OF assms(1,2,3)] assms(4) [symmetric])
next
  assume "jsonMatch raw = None \<or> (\<exists>m. jsonMatch raw = Some m \<and> p m = None)"
  then have "extract_pending p its mine raw = (None, None)" for its mine
    by (rule extract_pending_unparsed)
  then show "\<exists>reply. handleChat request e d (Resolves r1) (Resolves r2) p =
                       Inr (jsonResponse (Chat reply None None) 200, d)"
    by (auto simp add: handleChat_resolved [OF assms(1,2,3)] assms(4) [symmetric])
next
  show "jsonMatch ''null'' = None"
    by (simp add: jsonMatch_def)
qed

text \<open>
  A document between two sentences is matched whole and its proposal is pending. An
  extractor that answers nothing, the word \<open>null\<close>, a document cut short before its
  closing brace, or braces around something that is not JSON: no action, and 200.
\<close>

theorem extractor_output_is_matched_lazily_witness:
  "jsonMatch (''Claro! '' @ contribute_json @ '' Ate ja.'') = Some contribute_json
   \<and> handleChat (chat_from ''203.0.113.7'') env0 db_two (Resolves (Some ''Obrigado!''))
       (Resolves (Some (''Claro! '' @ contribute_json @ '' Ate ja.''))) JSON_parse_sample =
     Inr (jsonResponse
            (Chat ''Obrigado!''
               (Some \<lparr>p_item_id = 2, p_item_title = ''Pram'', p_name = ''Dora'',
                      p_amount = Num 20, p_message = []\<rparr>) None) 200, db_two)
   \<and> (\<exists>reply. handleChat (chat_from ''203.0.113.7'') env0 db_two (Resolves (Some ''Obrigado!''))
                (Resolves None) JSON_parse_sample =
              Inr (jsonResponse (Chat reply None None) 200, db_two))
   \<and> (\<exists>reply. handleChat (chat_from ''203.0.113.7'') env0 db_two (Resolves (Some ''Obrigado!''))
                (Resolves (Some ''null'')) JSON_parse_sample =
              Inr (jsonResponse (Chat reply None None) 200, db_two))
   \<and> (\<exists>reply. handleChat (chat_from ''203.0.113.7'') env0 db_two (Resolves (Some ''Obrigado!''))
                (Resolves (Some (take 40 cancel_json))) JSON_parse_sample =
              Inr (jsonResponse (Chat reply None None) 200, db_two))
   \<and> (\<exists>reply. handleChat (chat_from ''203.0.113.7'') env0 db_two (Resolves (Some ''Obrigado!''))
                (Resolves (Some ''Hmm {oops} ok'')) JSON_parse_sample =
              Inr (jsonResponse (Chat reply None None) 200, db_two))"
proof -
  have auth: "isGuest (chat_from ''203.0.113.7'') env0 \<or> isAdmin (chat_from ''203.0.113.7'') env0"
    by (simp add: isGuest_def chat_from_def guest_from_def env0_def)
  have body: "json (chat_from ''203.0.113.7'') =
                Some \<lparr>b_chat_message = Some ''Quero contribuir'', b_history = None\<rparr>"
    by (simp add: chat_from_def guest_from_def)
  have message: "sanitise (b_chat_message
                    \<lparr>b_chat_message = Some ''Quero contribuir'', b_history = None\<rparr>)
                   MAX_MESSAGE_LENGTH \<noteq> []"
    by code_simp
  have turn: "\<exists>reply. handleChat (chat_from ''203.0.113.7'') env0 db_two
                (Resolves (Some ''Obrigado!'')) (Resolves r2) JSON_parse_sample =
              Inr (jsonResponse (Chat reply None None) 200, db_two)"
    if "jsonMatch (case r2 of Some r \<Rightarrow> r | None \<Rightarrow> ''null'') = None \<or>
        (\<exists>m. jsonMatch (case r2 of Some r \<Rightarrow> r | None \<Rightarrow> ''null'') = Some m \<and>
             JSON_parse_sample m = None)" for r2
    using that extractor_output_is_matched_lazily [OF auth body message refl,
        where d = db_two and ?r1.0 = "Some ''Obrigado!''" and p = JSON_parse_sample
          and ?r2.0 = r2]
    by blast
  have matched: "jsonMatch (''Claro! '' @ contribute_json @ '' Ate ja.'') = Some contribute_json"
    by code_simp
  have surfaced: "handleChat (chat_from ''203.0.113.7'') env0 db_two
       (Resolves (Some ''Obrigado!''))
       (Resolves (Some (''Claro! '' @ contribute_json @ '' Ate ja.''))) JSON_parse_sample =
     Inr (jsonResponse
            (Chat ''Obrigado!''
               (Some \<lparr>p_item_id = 2, p_item_title = ''Pram'', p_name = ''Dora'',
                      p_amount = Num 20, p_message = []\<rparr>) None) 200, db_two)"
    by code_simp
  have unmatched: "jsonMatch ''null'' = None" "jsonMatch (take 40 cancel_json) = None"
    by code_simp+
  have unparsed: "jsonMatch ''Hmm {oops} ok'' = Some ''{oops}''"
    "JSON_parse_sample ''{oops}'' = None"
    by code_simp+
  have silent: "\<exists>reply. handleChat (chat_from ''203.0.113.7'') env0 db_two
                (Resolves (Some ''Obrigado!'')) (Resolves None) JSON_parse_sample =
              Inr (jsonResponse (Chat reply None None) 200, db_two)"
    using turn [of None] unmatched(1) by simp
  have null: "\<exists>reply. handleChat (chat_from ''203.0.113.7'') env0 db_two
                (Resolves (Some ''Obrigado!'')) (Resolves (Some ''null'')) JSON_parse_sample =
              Inr (jsonResponse (Chat reply None None) 200, db_two)"
    using turn [of "Some ''null''"] unmatched(1) by simp
  have truncated: "\<exists>reply. handleChat (chat_from ''203.0.113.7'') env0 db_two
                (Resolves (Some ''Obrigado!'')) (Resolves (Some (take 40 cancel_json)))
                JSON_parse_sample =
              Inr (jsonResponse (Chat reply None None) 200, db_two)"
    using turn [of "Some (take 40 cancel_json)"] unmatched(2) by simp
  have malformed: "\<exists>reply. handleChat (chat_from ''203.0.113.7'') env0 db_two
                (Resolves (Some ''Obrigado!'')) (Resolves (Some ''Hmm {oops} ok''))
                JSON_parse_sample =
              Inr (jsonResponse (Chat reply None None) 200, db_two)"
    using turn [of "Some ''Hmm {oops} ok''"] unparsed by simp
  from matched surfaced silent null truncated malformed show ?thesis
    by blast
qed

text \<open>
  The claim as stated fails on a flat, well-formed document whose message holds a closing
  brace. The document is the first well-formed object of the output, and the checks would
  surface its proposal; the match stops inside the message, the parser throws on it, and
  the turn has no pending action.
\<close>

theorem brace_in_message_counterexample:
  \<open>first_wellformed_object JSON_parse_sample smiley_json = Some smiley_json
   \<and> jsonMatch smiley_json =
       Some ''{"action":"contribute","item_id":2,"name":"Dora","amount":20,"message":"Parabens :-}''
   \<and> JSON_parse_sample
       ''{"action":"contribute","item_id":2,"name":"Dora","amount":20,"message":"Parabens :-}''
       = None
   \<and> map_option
        (\<lambda>data. surface_pending data (items_snapshot db_two)
                  (my_contributions db_two ''203.0.113.7''))
        (JSON_parse_sample smiley_json) =
       Some (Some \<lparr>p_item_id = 2, p_item_title = ''Pram'', p_name = ''Dora'',
                    p_amount = Num 20, p_message = ''Parabens :-}''\<rparr>, None)
   \<and> handleChat (chat_from ''203.0.113.7'') env0 db_two (Resolves (Some ''Obrigado!''))
       (Resolves (Some smiley_json)) JSON_parse_sample =
     Inr (jsonResponse (Chat ''Obrigado!'' None None) 200, db_two)\<close>
  by code_simp

section \<open>Ownership of a contribution, and item updates\<close>

text \<open>
  C7. On the owner's route, an authorised caller whose address is not the stored
  \<open>contributor_ip\<close> of an existing contribution gets the very response that an identifier
  with no contribution gets: 404 with the same message, and the store is returned as it
  was.
\<close>

theorem foreign_contribution_looks_absent:
  assumes "isGuest request e \<or> isAdmin request e"
    and "schema_ok d"
    and "select_contribution d k = Some c"
    and "contributor_ip c \<noteq> Some (getIP request)"
    and "select_contribution d k' = None"
  shows "handleDeleteMyContribution request e d k =
           Inr (jsonResponse (Error nao_encontrado) 404, d)
       \<and> handleDeleteMyContribution request e d k' =
           Inr (jsonResponse (Error nao_encontrado) 404, d)"
  using assms(1) select_own_mismatch [OF assms(2,3,4)] select_own_absent [OF assms(5)]
  by (auto simp: handleDeleteMyContribution_def Let_def)

theorem foreign_contribution_looks_absent_witness:
  "select_contribution db_two 2 = Some carl_row
   \<and> handleDeleteMyContribution (guest_from ''198.51.100.9'' (None :: unit option)) env0 db_two 2 =
       Inr (jsonResponse (Error nao_encontrado) 404, db_two)
   \<and> handleDeleteMyContribution (guest_from ''198.51.100.9'' (None :: unit option)) env0 db_two 42 =
       Inr (jsonResponse (Error nao_encontrado) 404, db_two)"
proof -
  let ?caller = "guest_from ''198.51.100.9'' (None :: unit option)"
  have auth: "isGuest ?caller env0 \<or> isAdmin ?caller env0"
    by (simp add: isGuest_def guest_from_def env0_def)
  have ok: "schema_ok db_two"
    by (simp add: schema_ok_def db_two_def bassinet_def pram_def bea_row_def carl_row_def
        item_checks_def contribution_checks_def)
  have there: "select_contribution db_two 2 = Some carl_row"
    by (simp add: select_contribution_def db_two_def bea_row_def carl_row_def)
  have other: "contributor_ip carl_row \<noteq> Some (getIP ?caller)"
    by (simp add: carl_row_def getIP_def guest_from_def)
  have absent: "select_contribution db_two 42 = None"
    by (simp add: select_contribution_def db_two_def bea_row_def carl_row_def)
  show ?thesis
    using foreign_contribution_looks_absent [OF auth ok there other absent] there
    by simp
qed

text \<open>
  C8 (as amended). For an admin's update of an existing item, in a store that satisfies its
  schema: the title is required, and a title that is blank once sanitised is answered 400
  with the item untouched. With a title, and a \<open>price_total\<close> and an \<open>is_funded\<close> the schema
  accepts where they are given, the answer is 200; the item takes the sanitised title;
  \<open>description\<close>, \<open>image_url\<close> and \<open>product_url\<close> keep the stored value where the patch has a
  blank or no value; \<open>price_total\<close> and \<open>is_funded\<close> keep the stored value where the patch
  has none; \<open>price_raised\<close>, \<open>created_at\<close> and the identifier are as they were; and no other
  item and no contribution changes.
\<close>

theorem update_keeps_what_the_patch_omits:
  assumes "isAdmin request e" and "json request = Some b"
    and "schema_ok d" and "select_item d k = Some existing"
    and "t = sanitise (b_title b) MAX_GENERIC_STRING"
    and "ds = sanitise (b_description b) MAX_GENERIC_STRING"
    and "img = sanitise (b_image_url b) MAX_GENERIC_STRING"
    and "url = sanitise (b_product_url b) MAX_GENERIC_STRING"
  shows "(t = [] \<longrightarrow>
            handleUpdateItem request e d k =
              Inr (jsonResponse (Error ''title is required'') 400, d))
       \<and> (t \<noteq> [] \<and> (\<forall>p. b_price_total b = Some p \<longrightarrow> 0 \<le> p) \<and>
          (\<forall>f. b_is_funded b = Some f \<longrightarrow> f = 0 \<or> f = 1) \<longrightarrow>
            (\<exists>d' it'. handleUpdateItem request e d k = Inr (jsonResponse Success 200, d') \<and>
               select_item d' k = Some it' \<and> title it' = t \<and>
               description it' = (if ds = [] then description existing else ds) \<and>
               image_url it' = (if img = [] then image_url existing else img) \<and>
               product_url it' = (if url = [] then product_url existing else url) \<and>
               price_total it' =
                 (case b_price_total b of None \<Rightarrow> price_total existing | Some p \<Rightarrow> p) \<and>
               is_funded it' =
                 (case b_is_funded b of None \<Rightarrow> is_funded existing | Some f \<Rightarrow> f) \<and>
               price_raised it' = price_raised existing \<and>
               created_at it' = created_at existing \<and> i_id it' = i_id existing \<and>
               contributions d' = contributions d \<and>
               (\<forall>j. j \<noteq> k \<longrightarrow> select_item d' j = select_item d j)))"
proof (intro conjI impI)
  assume "t = []"
  then show "handleUpdateItem request e d k =
               Inr (jsonResponse (Error ''title is required'') 400, d)"
    using assms(1,2,5) by (simp add: handleUpdateItem_def Let_def)
next
  assume given: "t \<noteq> [] \<and> (\<forall>p. b_price_total b = Some p \<longrightarrow> 0 \<le> p) \<and>
          (\<forall>f. b_is_funded b = Some f \<longrightarrow> f = 0 \<or> f = 1)"
  define tot where "tot = (case b_price_total b of None \<Rightarrow> price_total existing | Some p \<Rightarrow> p)"
  define fl where "fl = (case b_is_funded b of None \<Rightarrow> is_funded existing | Some f \<Rightarrow> f)"
  define f :: "item \<Rightarrow> item"
    where "f = (\<lambda>i. i\<lparr>title := t, description := or_else ds (description existing),
                       image_url := or_else img (image_url existing),
                       product_url := or_else url (product_url existing),
                       price_total := tot, is_funded := fl\<rparr>)"
  have stored: "item_checks existing"
    using assms(3,4) select_item_mem schema_ok_item by blast
  have tot: "0 \<le> tot"
    using given stored by (cases "b_price_total b") (simp_all add: tot_def item_checks_def)
  have fl: "fl = 0 \<or> fl = 1"
    using given stored by (cases "b_is_funded b") (simp_all add: fl_def item_checks_def)
  have "item_checks (f i)" if "i \<in> set (items d)" for i
    using schema_ok_item [OF assms(3) that] given tot fl by (simp add: item_checks_def f_def)
  then have "update_items (\<lambda>i. i_id i = k) f d =
             Some (d\<lparr>items := map (\<lambda>i. if i_id i = k then f i else i) (items d)\<rparr>)"
    by (intro update_items_accepts)
  then have result: "handleUpdateItem request e d k =
      Inr (jsonResponse Success 200,
           d\<lparr>items := map (\<lambda>i. if i_id i = k then f i else i) (items d)\<rparr>)"
    using assms(1,2,4,5,6,7,8) given
    by (simp add: handleUpdateItem_def Let_def update_item_fields_def f_def tot_def fl_def)
  have same_id: "\<And>i. i_id (f i) = i_id i"
    by (simp add: f_def)
  have looked_up: "select_item (d\<lparr>items := map (\<lambda>i. if i_id i = k then f i else i) (items d)\<rparr>) j
        = (if j = k then Some (f existing) else select_item d j)" for j
    using select_item_updated [where f = f and d = d and k = k and j = j, OF same_id] assms(4)
    by simp
  show "\<exists>d' it'. handleUpdateItem request e d k = Inr (jsonResponse Success 200, d') \<and>
               select_item d' k = Some it' \<and> title it' = t \<and>
               description it' = (if ds = [] then description existing else ds) \<and>
               image_url it' = (if img = [] then image_url existing else img) \<and>
               product_url it' = (if url = [] then product_url existing else url) \<and>
               price_total it' =
                 (case b_price_total b of None \<Rightarrow> price_total existing | Some p \<Rightarrow> p) \<and>
               is_funded it' =
                 (case b_is_funded b of None \<Rightarrow> is_funded existing | Some f \<Rightarrow> f) \<and>
               price_raised it' = price_raised existing \<and>
               created_at it' = created_at existing \<and> i_id it' = i_id existing \<and>
               contributions d' = contributions d \<and>
               (\<forall>j. j \<noteq> k \<longrightarrow> select_item d' j = select_item d j)"
    using result looked_up
    by (intro exI [of _ "d\<lparr>items := map (\<lambda>i. if i_id i = k then f i else i) (items d)\<rparr>"]
        exI [of _ "f existing"])
      (simp add: f_def or_else_def tot_def fl_def)
qed

text \<open>
  A patch that renames the crib, leaves the description blank and gives a new target: the
  description stays, the target becomes 120, and 80 is still raised.
\<close>

theorem update_keeps_what_the_patch_omits_witness:
  "handleUpdateItem (admin_from ''198.51.100.1'' (Some retitle_patch)) env0 db_crib 1 =
     Inr (jsonResponse Success 200,
          db_crib\<lparr>items := [crib\<lparr>title := ''Oak crib'',
                                 product_url := ''https://shop.example/crib'',
                                 price_total := 120\<rparr>]\<rparr>)
   \<and> handleUpdateItem (admin_from ''198.51.100.1'' (Some untitled_patch)) env0 db_crib 1 =
     Inr (jsonResponse (Error ''title is required'') 400, db_crib)"
proof -
  let ?rename = "admin_from ''198.51.100.1'' (Some retitle_patch)"
  let ?blank = "admin_from ''198.51.100.1'' (Some untitled_patch)"
  have admin: "isAdmin ?rename env0" "isAdmin ?blank env0"
    by (simp_all add: isAdmin_def admin_from_def env0_def)
  have body: "json ?rename = Some retitle_patch" "json ?blank = Some untitled_patch"
    by (simp_all add: admin_from_def)
  have ok: "schema_ok db_crib"
    by (simp add: schema_ok_def db_crib_def crib_def item_checks_def)
  have found: "select_item db_crib 1 = Some crib"
    by (simp add: select_item_def db_crib_def crib_def)
  have t: "sanitise (b_title retitle_patch) MAX_GENERIC_STRING = ''Oak crib''"
    "sanitise (b_title untitled_patch) MAX_GENERIC_STRING = []"
    by (simp_all add: retitle_patch_def untitled_patch_def sanitise_def trim_def js_space_def
        control_char_def MAX_GENERIC_STRING_def)
  have given: "''Oak crib'' \<noteq> [] \<and> (\<forall>p. b_price_total retitle_patch = Some p \<longrightarrow> 0 \<le> p) \<and>
          (\<forall>f. b_is_funded retitle_patch = Some f \<longrightarrow> f = 0 \<or> f = 1)"
    by (simp add: retitle_patch_def)
  from update_keeps_what_the_patch_omits
    [OF admin(1) body(1) ok found t(1) [symmetric] refl refl refl] given
  obtain d' it' where
    renamed: "handleUpdateItem ?rename env0 db_crib 1 = Inr (jsonResponse Success 200, d')"
    by blast
  have answer: "handleUpdateItem ?rename env0 db_crib 1 =
     Inr (jsonResponse Success 200,
          db_crib\<lparr>items := [crib\<lparr>title := ''Oak crib'',
                                 product_url := ''https://shop.example/crib'',
                                 price_total := 120\<rparr>]\<rparr>)"
    by code_simp
  have refused: "handleUpdateItem ?blank env0 db_crib 1 =
     Inr (jsonResponse (Error ''title is required'') 400, db_crib)"
    using update_keeps_what_the_patch_omits
      [OF admin(2) body(2) ok found t(2) [symmetric] refl refl refl]
    by simp
  from renamed answer refused show ?thesis
    by simp
qed

text \<open>
  The claim as stated fails for the title: a patch whose title is blank does not fall back
  on the stored title, it is refused.
\<close>

theorem blank_title_counterexample:
  "select_item db_crib 1 = Some crib
   \<and> sanitise (b_title untitled_patch) MAX_GENERIC_STRING = []
   \<and> handleUpdateItem (admin_from ''198.51.100.1'' (Some untitled_patch)) env0 db_crib 1 =
       Inr (jsonResponse (Error ''title is required'') 400, db_crib)
   \<and> fetch env0 (\<lambda>s. None) db_crib
        (PutItem 1 (admin_from ''198.51.100.1'' (Some untitled_patch))) =
       (jsonResponse (Error ''title is required'') 400, db_crib)"
  by code_simp

section \<open>Failures of the model calls\<close>

text \<open>
  C9 (as amended). For a chat turn of an authorised caller with a message: when both model
  calls resolve the turn is answered 200, with the canned apology as the reply where the
  responder's answer has no text, and with no pending action where the extractor's answer
  has none; when either call rejects, nothing in the handler catches it, \<open>fetch\<close> does,
  and the turn is answered 500.
\<close>

theorem model_failures_in_a_turn:
  assumes "isGuest request e \<or> isAdmin request e" and "json request = Some b"
    and "sanitise (b_chat_message b) MAX_MESSAGE_LENGTH \<noteq> []"
  shows "(\<forall>r x. \<exists>reply cp xp.
            fetch e p d (PostChat request (Resolves r) (Resolves x)) =
              (jsonResponse (Chat reply cp xp) 200, d))
       \<and> (\<forall>x. \<exists>cp xp.
            fetch e p d (PostChat request (Resolves None) (Resolves x)) =
              (jsonResponse (Chat fallback_reply cp xp) 200, d))
       \<and> (\<forall>r. \<exists>reply.
            fetch e p d (PostChat request (Resolves r) (Resolves None)) =
              (jsonResponse (Chat reply None None) 200, d))
       \<and> (\<forall>a. fetch e p d (PostChat request Rejects a) =
              (jsonResponse (Error ''Internal Server Error'') 500, d))
       \<and> (\<forall>r. fetch e p d (PostChat request (Resolves r) Rejects) =
              (jsonResponse (Error ''Internal Server Error'') 500, d))"
proof -
  have no_match: "extract_pending p its mine ''null'' = (None, None)" for its mine
    by (intro extract_pending_unparsed) (simp add: jsonMatch_def)
  show ?thesis
    using handleChat_resolved [OF assms] handleChat_rejected [OF assms]
    by (auto simp add: fetch_def fallback_reply_clean no_match)
qed

text \<open>
  A responder without text and an extractor without text: the apology, no action, 200.
  A responder or an extractor that rejects: 500.
\<close>

theorem model_failures_in_a_turn_witness:
  "fetch env0 JSON_parse_sample db_two
     (PostChat (chat_from ''203.0.113.7'') (Resolves None) (Resolves None)) =
     (jsonResponse (Chat fallback_reply None None) 200, db_two)
   \<and> fetch env0 JSON_parse_sample db_two
       (PostChat (chat_from ''203.0.113.7'') Rejects (Resolves None)) =
     (jsonResponse (Error ''Internal Server Error'') 500, db_two)
   \<and> fetch env0 JSON_parse_sample db_two
       (PostChat (chat_from ''203.0.113.7'') (Resolves (Some ''Obrigado!'')) Rejects) =
     (jsonResponse (Error ''Internal Server Error'') 500, db_two)"
proof -
  have auth: "isGuest (chat_from ''203.0.113.7'') env0 \<or> isAdmin (chat_from ''203.0.113.7'') env0"
    by (simp add: isGuest_def chat_from_def guest_from_def env0_def)
  have body: "json (chat_from ''203.0.113.7'') =
                Some \<lparr>b_chat_message = Some ''Quero contribuir'', b_history = None\<rparr>"
    by (simp add: chat_from_def guest_from_def)
  have message: "sanitise (b_chat_message
                    \<lparr>b_chat_message = Some ''Quero contribuir'', b_history = None\<rparr>)
                   MAX_MESSAGE_LENGTH \<noteq> []"
    by code_simp
  note turn = model_failures_in_a_turn [OF auth body message,
      where p = JSON_parse_sample and d = db_two]
  from turn obtain reply where
    "fetch env0 JSON_parse_sample db_two
       (PostChat (chat_from ''203.0.113.7'') (Resolves None) (Resolves None)) =
     (jsonResponse (Chat reply None None) 200, db_two)"
    by blast
  moreover from turn obtain cp xp where
    "fetch env0 JSON_parse_sample db_two
       (PostChat (chat_from ''203.0.113.7'') (Resolves None) (Resolves None)) =
     (jsonResponse (Chat fallback_reply cp xp) 200, db_two)"
    by blast
  ultimately have "fetch env0 JSON_parse_sample db_two
       (PostChat (chat_from ''203.0.113.7'') (Resolves None) (Resolves None)) =
     (jsonResponse (Chat fallback_reply None None) 200, db_two)"
    by (simp add: jsonResponse_def)
  with turn show ?thesis
    by blast
qed

text \<open>
  The claim as stated fails when the model call itself fails: the responder rejects, and
  the authorised caller's turn is answered 500, not 200 with the apology.
\<close>

theorem rejected_model_call_counterexample:
  "(isGuest (chat_from ''203.0.113.7'') env0 \<or> isAdmin (chat_from ''203.0.113.7'') env0)
   \<and> handleChat (chat_from ''203.0.113.7'') env0 db_two Rejects (Resolves None)
       JSON_parse_sample = Inl AiFailed
   \<and> fetch env0 JSON_parse_sample db_two
       (PostChat (chat_from ''203.0.113.7'') Rejects (Resolves None)) =
     (jsonResponse (Error ''Internal Server Error'') 500, db_two)
   \<and> status (fst (fetch env0 JSON_parse_sample db_two
                    (PostChat (chat_from ''203.0.113.7'') Rejects (Resolves None)))) = 500"
  by code_simp

section \<open>A contribution and its cancellation\<close>




end
